theory Spec2Isabelle
  imports Complex_Main "HOL-Library.Multiset" "HOL-Library.Char_ord" "HOL-Library.List_Lexorder"
begin

section \<open>Spoiler detection pipeline: a shallow embedding of the notebook\<close>

text \<open>
  The notebook \<^verbatim>\<open>code.ipynb\<close> is a linear script: it filters the movie table, joins it
  with the reviews, extracts features from each review on a pool of two worker threads,
  scales the numeric features, splits into train and test partitions and vectorises the
  token strings. Each stage is embedded as a function on lists of rows; every exception
  the script can raise is a value of \<open>error\<close>.
\<close>

datatype error =
    DateParseError
  | KeyError
  | ShapeError
  | EmptyInput
  | DivisionByZero
  | LengthMismatch
  | EmptyVocabulary

subsection \<open>Stage 1: date filter and join\<close>

text \<open>
  The two input tables. Only the columns the script reads are kept. A text column of the
  reviews can be missing, which \<^verbatim>\<open>astype(str)\<close> prints as \<^verbatim>\<open>None\<close>.
\<close>

record movie =
  movie_id :: string
  release_date :: string

record review =
  review_movie_id :: string
  review_date :: string
  review_summary :: "string option"
  review_text :: "string option"
  is_spoiler :: bool

text \<open>
  \<^verbatim>\<open>
  def filter_valid_release_dates(dataframe):
      mask = (dataframe['release_date'].str.len() == 10)
      return dataframe.loc[mask]
  \<close>
\<close>

definition filter_valid_release_dates :: "movie list \<Rightarrow> movie list" where
  "filter_valid_release_dates dataframe =
     filter (\<lambda>m. length (release_date m) = 10) dataframe"

text \<open>
  \<^verbatim>\<open>pd.to_datetime\<close> on a column raises as soon as one entry does not parse. The date
  parser itself is a parameter \<open>parse\<close>, giving the day number of a date string.
\<close>

fun to_datetime :: "(string \<Rightarrow> int option) \<Rightarrow> string list \<Rightarrow> error + int list" where
  "to_datetime parse [] = Inr []"
| "to_datetime parse (s # ss) =
     (case parse s of
        None \<Rightarrow> Inl DateParseError
      | Some d \<Rightarrow> (case to_datetime parse ss of Inl e \<Rightarrow> Inl e | Inr ds \<Rightarrow> Inr (d # ds)))"

text \<open>
  Modelled from the spec: the table join \<^verbatim>\<open>pd.merge(df_reviews, df_movies, on='movie_id')\<close>
  is a library routine. It is the inner join on the movie identifier: one output row for
  every pair of a review and a movie record with the same identifier, in the order of the
  reviews.
\<close>

definition merge :: "(review \<times> int) list \<Rightarrow> (movie \<times> int) list \<Rightarrow>
    ((review \<times> int) \<times> (movie \<times> int)) list" where
  "merge left right =
     concat (map (\<lambda>l. map (\<lambda>r. (l, r))
       (filter (\<lambda>r. movie_id (fst r) = review_movie_id (fst l)) right)) left)"

definition astype_str :: "string option \<Rightarrow> string" where
  "astype_str v = (case v of None \<Rightarrow> ''None'' | Some s \<Rightarrow> s)"

record merged_row =
  merged_movie_id :: string
  merged_review :: review
  merged_movie :: movie
  days_since_release :: int
  review_combined :: string

definition derive_row :: "(review \<times> int) \<times> (movie \<times> int) \<Rightarrow> merged_row" where
  "derive_row p =
     (case p of ((r, review_day), (m, release_day)) \<Rightarrow>
        \<lparr> merged_movie_id = review_movie_id r,
          merged_review = r,
          merged_movie = m,
          days_since_release = review_day - release_day,
          review_combined = astype_str (review_summary r) @ '' '' @ astype_str (review_text r) \<rparr>)"

text \<open>
  The first cells of the notebook: filter the movies, convert both date columns, merge,
  and derive the two new columns.
\<close>

definition join_and_filter ::
    "(string \<Rightarrow> int option) \<Rightarrow> review list \<Rightarrow> movie list \<Rightarrow> error + merged_row list" where
  "join_and_filter parse df_reviews df_movies0 =
     (let df_movies = filter_valid_release_dates df_movies0 in
      case to_datetime parse (map review_date df_reviews) of
        Inl e \<Rightarrow> Inl e
      | Inr review_days \<Rightarrow>
          (case to_datetime parse (map release_date df_movies) of
             Inl e \<Rightarrow> Inl e
           | Inr release_days \<Rightarrow>
               Inr (map derive_row
                 (merge (zip df_reviews review_days) (zip df_movies release_days)))))"

subsection \<open>Stage 2: feature extraction\<close>

text \<open>
  The natural-language pipeline \<^verbatim>\<open>nlp\<close> is a loaded spaCy model. It is a parameter: a
  function from a text to its parse, the list of its tokens with the attributes the
  script reads. Part-of-speech tags and entity types are symbols of one table; the seven
  the script names are constructors, every other symbol is \<open>OtherSymbol\<close>.
\<close>

datatype symbol = NOUN | VERB | ADJ | PERSON | ORG | GPE | DATE | OtherSymbol nat

record token =
  token_lemma :: string
  token_is_stop :: bool
  token_is_punct :: bool
  token_pos :: symbol
  token_ent_type :: symbol

type_synonym doc = "token list"

text \<open>
  \<^verbatim>\<open>doc.count_by(attr)\<close> walks the tokens of the parse and returns a dictionary from each
  attribute value that occurs to the number of tokens carrying it.
\<close>

definition increment :: "(symbol \<rightharpoonup> nat) \<Rightarrow> symbol \<Rightarrow> (symbol \<rightharpoonup> nat)" where
  "increment counts key =
     (case counts key of
        None \<Rightarrow> counts(key \<mapsto> 1)
      | Some c \<Rightarrow> counts(key \<mapsto> c + 1))"

fun count_loop :: "(token \<Rightarrow> symbol) \<Rightarrow> doc \<Rightarrow> (symbol \<rightharpoonup> nat) \<Rightarrow> (symbol \<rightharpoonup> nat)" where
  "count_loop attr [] counts = counts"
| "count_loop attr (t # ts) counts = count_loop attr ts (increment counts (attr t))"

definition count_by :: "(token \<Rightarrow> symbol) \<Rightarrow> doc \<Rightarrow> (symbol \<rightharpoonup> nat)" where
  "count_by attr d = count_loop attr d Map.empty"

text \<open>\<^verbatim>\<open>counts.get(key, default)\<close>\<close>

definition get :: "(symbol \<rightharpoonup> nat) \<Rightarrow> symbol \<Rightarrow> nat \<Rightarrow> nat" where
  "get counts key dflt = (case counts key of None \<Rightarrow> dflt | Some c \<Rightarrow> c)"

text \<open>\<^verbatim>\<open>sep.join(items)\<close>\<close>

fun join :: "string \<Rightarrow> string list \<Rightarrow> string" where
  "join sep [] = []"
| "join sep [x] = x"
| "join sep (x # y # ys) = x @ sep @ join sep (y # ys)"

text \<open>
  A feature list is a Python list of mixed cells: integers, floats (after scaling) and
  one string.
\<close>

datatype cell = IntC int | FloatC rat | StrC string

text \<open>
  The dictionary \<^verbatim>\<open>pos_ner_counts\<close> keeps its keys in insertion order; it is an association
  list. \<^verbatim>\<open>pos_ner_counts[i]\<close> raises \<^verbatim>\<open>KeyError\<close> on a key that is absent.
\<close>

fun subscript :: "(string \<times> nat) list \<Rightarrow> string \<Rightarrow> error + nat" where
  "subscript [] key = Inl KeyError"
| "subscript ((k, v) # kvs) key = (if k = key then Inr v else subscript kvs key)"

text \<open>
  The loop
  \<^verbatim>\<open>
  for i in pos_ner_counts.keys():
      features.append(pos_ner_counts[i])
  \<close>
\<close>

fun append_counts :: "(string \<times> nat) list \<Rightarrow> string list \<Rightarrow> cell list \<Rightarrow> error + cell list" where
  "append_counts d [] features = Inr features"
| "append_counts d (i # keys) features =
     (case subscript d i of
        Inl e \<Rightarrow> Inl e
      | Inr v \<Rightarrow> append_counts d keys (features @ [IntC (int v)]))"

text \<open>
  \<^verbatim>\<open>
  def preprocess(text, days):
      doc = nlp(text)
      pos_counts = doc.count_by(spacy.attrs.POS)
      entity_counts = doc.count_by(spacy.attrs.ENT_TYPE)
      processed_text = [token.lemma_ for token in doc if not token.is_stop and not token.is_punct]
      tokens = ' '.join(processed_text)
      pos_ner_counts = {
          'NOUN_count': pos_counts.get(spacy.symbols.NOUN, 0),
          'VERB_count': pos_counts.get(spacy.symbols.VERB, 0),
          'ADJ_count': pos_counts.get(spacy.symbols.ADJ, 0),
          'PERSON_count': entity_counts.get(spacy.symbols.PERSON, 0),
          'ORG_count': entity_counts.get(spacy.symbols.ORG, 0),
          'GPE_count': entity_counts.get(spacy.symbols.GPE, 0),
          'DATE_count': entity_counts.get(spacy.symbols.DATE, 0)
      }
      features = [days]
      for i in pos_ner_counts.keys():
          features.append(pos_ner_counts[i])
      features.append(tokens)
      return features
  \<close>
\<close>

definition preprocess :: "(string \<Rightarrow> doc) \<Rightarrow> string \<Rightarrow> int \<Rightarrow> error + cell list" where
  "preprocess nlp text days =
     (let d = nlp text;
          pos_counts = count_by token_pos d;
          entity_counts = count_by token_ent_type d;
          processed_text =
            map token_lemma (filter (\<lambda>t. \<not> token_is_stop t \<and> \<not> token_is_punct t) d);
          tokens = join '' '' processed_text;
          pos_ner_counts =
            [(''NOUN_count'', get pos_counts NOUN 0),
             (''VERB_count'', get pos_counts VERB 0),
             (''ADJ_count'', get pos_counts ADJ 0),
             (''PERSON_count'', get entity_counts PERSON 0),
             (''ORG_count'', get entity_counts ORG 0),
             (''GPE_count'', get entity_counts GPE 0),
             (''DATE_count'', get entity_counts DATE 0)];
          features = [IntC days]
      in case append_counts pos_ner_counts (map fst pos_ner_counts) features of
           Inl e \<Rightarrow> Inl e
         | Inr features' \<Rightarrow> Inr (features' @ [StrC tokens]))"

text \<open>
  The worker pool. Every record is submitted as one task, in the order of the table:
  \<^verbatim>\<open>
  future_results = [executor.submit(preprocess, text, days)
                    for text, days in zip(texts, days_since_review)]
  for future in concurrent.futures.as_completed(future_results):
      processed_doc = future.result()
      processed_texts.append(processed_doc)
  \<close>
  \<^verbatim>\<open>as_completed\<close> yields every future once, in the order in which the tasks finish. That
  order is decided by the scheduler; it is the parameter \<open>order\<close>, the list of the
  positions of the futures in \<^verbatim>\<open>future_results\<close> in completion order, a permutation of
  \<open>[0..<length future_results]\<close>. \<^verbatim>\<open>future.result()\<close> raises what the task raised.
\<close>

definition submit :: "(string \<Rightarrow> doc) \<Rightarrow> string list \<Rightarrow> int list \<Rightarrow> (error + cell list) list" where
  "submit nlp texts days_since_review =
     map (\<lambda>(text, days). preprocess nlp text days) (zip texts days_since_review)"

definition as_completed :: "nat list \<Rightarrow> 'a list \<Rightarrow> 'a list" where
  "as_completed order future_results = map (\<lambda>i. future_results ! i) order"

fun collect :: "(error + 'a) list \<Rightarrow> 'a list \<Rightarrow> error + 'a list" where
  "collect [] processed_texts = Inr processed_texts"
| "collect (future # futures) processed_texts =
     (case future of
        Inl e \<Rightarrow> Inl e
      | Inr processed_doc \<Rightarrow> collect futures (processed_texts @ [processed_doc]))"

text \<open>
  The columns read off the table (after the cap \<^verbatim>\<open>df = df[:2000]\<close>) and the extraction
  over the pool. The table is written to a CSV file and read back in between, which
  keeps these three columns.
\<close>

definition sample_cap :: nat where
  "sample_cap = 2000"

definition labels_of :: "merged_row list \<Rightarrow> bool list" where
  "labels_of df = map (\<lambda>r. is_spoiler (merged_review r)) (take sample_cap df)"

definition texts_of :: "merged_row list \<Rightarrow> string list" where
  "texts_of df = map review_combined (take sample_cap df)"

definition days_of :: "merged_row list \<Rightarrow> int list" where
  "days_of df = map days_since_release (take sample_cap df)"

definition extract_features ::
    "(string \<Rightarrow> doc) \<Rightarrow> nat list \<Rightarrow> merged_row list \<Rightarrow> error + cell list list" where
  "extract_features nlp order df =
     collect (as_completed order (submit nlp (texts_of df) (days_of df))) []"

subsection \<open>Stage 3: the feature table and its scaling\<close>

text \<open>
  \<^verbatim>\<open>
  df = pd.DataFrame(processed_texts, columns=['Days', 'NOUN_count', 'VERB_count',
         'ADJ_count', 'PERSON_count', 'ORG_count', 'GPE_count', 'DATE_count', 'tokens'])
  \<close>
  A row of the table has the eight numeric columns, in this order, and the token string.
  The construction raises when a feature list does not have nine entries; a numeric
  column holding a string makes the scaler raise. Both are \<open>ShapeError\<close> here.
\<close>

record frame_row =
  numeric :: "rat list"
  tokens :: string

fun all_or_error :: "(error + 'a) list \<Rightarrow> error + 'a list" where
  "all_or_error [] = Inr []"
| "all_or_error (r # rs) =
     (case r of
        Inl e \<Rightarrow> Inl e
      | Inr v \<Rightarrow> (case all_or_error rs of Inl e \<Rightarrow> Inl e | Inr vs \<Rightarrow> Inr (v # vs)))"

fun as_float :: "cell \<Rightarrow> error + rat" where
  "as_float (IntC i) = Inr (of_int i)"
| "as_float (FloatC q) = Inr q"
| "as_float (StrC s) = Inl ShapeError"

definition frame_row_of :: "cell list \<Rightarrow> error + frame_row" where
  "frame_row_of features =
     (if length features \<noteq> 9 then Inl ShapeError
      else case all_or_error (map as_float (take 8 features)) of
             Inl e \<Rightarrow> Inl e
           | Inr nums \<Rightarrow>
               (case features ! 8 of
                  StrC s \<Rightarrow> Inr \<lparr> numeric = nums, tokens = s \<rparr>
                | _ \<Rightarrow> Inl ShapeError))"

definition DataFrame :: "cell list list \<Rightarrow> error + frame_row list" where
  "DataFrame processed_texts = all_or_error (map frame_row_of processed_texts)"

text \<open>
  Modelled from the spec: the min-max scaler (\<^verbatim>\<open>MinMaxScaler().fit_transform\<close>, a library
  routine). For each of the eight numeric columns independently it takes the minimum and
  the maximum of the column over all the rows it is given and maps each value \<open>x\<close> to
  \<open>(x - min) / (max - min)\<close>; a column whose maximum equals its minimum is mapped to \<open>0\<close>
  without dividing. Values are exact rationals. Division is checked, so that a division
  by zero would be the error \<open>DivisionByZero\<close>; no samples at all is \<open>EmptyInput\<close>.
\<close>

definition column :: "nat \<Rightarrow> rat list list \<Rightarrow> rat list" where
  "column c X = map (\<lambda>row. row ! c) X"

fun fit_column :: "rat list \<Rightarrow> error + rat \<times> rat" where
  "fit_column [] = Inl EmptyInput"
| "fit_column (x # xs) = Inr (fold min xs x, fold max xs x)"

definition scaler_fit :: "rat list list \<Rightarrow> error + (rat \<times> rat) list" where
  "scaler_fit X = all_or_error (map (\<lambda>c. fit_column (column c X)) [0..<8])"

definition divide :: "rat \<Rightarrow> rat \<Rightarrow> error + rat" where
  "divide a b = (if b = 0 then Inl DivisionByZero else Inr (a / b))"

definition scale_value :: "rat \<times> rat \<Rightarrow> rat \<Rightarrow> error + rat" where
  "scale_value p x =
     (case p of (data_min, data_max) \<Rightarrow>
        if data_max = data_min then Inr 0
        else divide (x - data_min) (data_max - data_min))"

definition scaler_transform :: "(rat \<times> rat) list \<Rightarrow> rat list list \<Rightarrow> error + rat list list" where
  "scaler_transform params X =
     all_or_error (map (\<lambda>row.
       if length row \<noteq> length params then Inl ShapeError
       else all_or_error (map (\<lambda>(p, x). scale_value p x) (zip params row))) X)"

definition scaler_fit_transform :: "rat list list \<Rightarrow> error + rat list list" where
  "scaler_fit_transform X =
     (case scaler_fit X of Inl e \<Rightarrow> Inl e | Inr params \<Rightarrow> scaler_transform params X)"

text \<open>
  \<^verbatim>\<open>
  scaler = MinMaxScaler()
  normalized_counts = scaler.fit_transform(df[['Days', ..., 'DATE_count']])
  df[['Days', ..., 'DATE_count']] = normalized_counts
  \<close>
\<close>

definition scale_frame :: "frame_row list \<Rightarrow> error + frame_row list" where
  "scale_frame df =
     (case scaler_fit_transform (map numeric df) of
        Inl e \<Rightarrow> Inl e
      | Inr normalized_counts \<Rightarrow>
          Inr (map (\<lambda>(r, n). r\<lparr>numeric := n\<rparr>) (zip df normalized_counts)))"

text \<open>The closed form of the scaling, for stating what the scaler computes.\<close>

definition minmax :: "rat \<Rightarrow> rat \<Rightarrow> rat \<Rightarrow> rat" where
  "minmax lo hi x = (if hi = lo then 0 else (x - lo) / (hi - lo))"

subsection \<open>Stage 4: split and vectorisation\<close>

text \<open>
  \<^verbatim>\<open>
  X = processed_texts        # the scaled table, read back from its checkpoint
  y = labels
  X_train, X_test, y_train, y_test =
      train_test_split(X, y, test_size=0.2, random_state=42, stratify=y)
  \<close>
  The splitter is a library routine. Which positions it sends to which partition is the
  parameter \<open>splitter\<close>: from the label list to the positions of the train and of the test
  partition. Row \<open>i\<close> of \<open>X\<close> and entry \<open>i\<close> of \<open>y\<close> travel together; lists of different
  lengths are refused.
\<close>

definition take_rows :: "nat list \<Rightarrow> 'a list \<Rightarrow> 'a list" where
  "take_rows positions xs = map (\<lambda>i. xs ! i) positions"

definition train_test_split ::
    "(bool list \<Rightarrow> nat list \<times> nat list) \<Rightarrow> 'a list \<Rightarrow> bool list \<Rightarrow>
     error + 'a list \<times> 'a list \<times> bool list \<times> bool list" where
  "train_test_split splitter X y =
     (if length X \<noteq> length y then Inl LengthMismatch
      else case splitter y of (train, test) \<Rightarrow>
        Inr (take_rows train X, take_rows test X, take_rows train y, take_rows test y))"

text \<open>Cells 5 to 7 of the notebook in one function: extraction, table, scaling, split.\<close>

definition prepare ::
    "(string \<Rightarrow> doc) \<Rightarrow> nat list \<Rightarrow> merged_row list \<Rightarrow> error + frame_row list \<times> bool list" where
  "prepare nlp order df =
     (case extract_features nlp order df of
        Inl e \<Rightarrow> Inl e
      | Inr processed_texts \<Rightarrow>
          (case DataFrame processed_texts of
             Inl e \<Rightarrow> Inl e
           | Inr frame \<Rightarrow>
               (case scale_frame frame of
                  Inl e \<Rightarrow> Inl e
                | Inr scaled \<Rightarrow> Inr (scaled, labels_of df))))"

definition split_data ::
    "(string \<Rightarrow> doc) \<Rightarrow> nat list \<Rightarrow> (bool list \<Rightarrow> nat list \<times> nat list) \<Rightarrow> merged_row list \<Rightarrow>
     error + frame_row list \<times> frame_row list \<times> bool list \<times> bool list" where
  "split_data nlp order splitter df =
     (case prepare nlp order df of
        Inl e \<Rightarrow> Inl e
      | Inr (X, y) \<Rightarrow> train_test_split splitter X y)"

subsection \<open>Closed forms for the statements\<close>

text \<open>
  What the feature extractor is meant to compute, in the words of its description: the
  number of tokens of the whole parse that carry a tag, the cleaned token string, and
  the table row made of them.
\<close>

definition occurrences :: "(token \<Rightarrow> symbol) \<Rightarrow> symbol \<Rightarrow> doc \<Rightarrow> nat" where
  "occurrences attr key d = length (filter (\<lambda>t. attr t = key) d)"

definition cleaned :: "doc \<Rightarrow> string" where
  "cleaned d = join '' '' (map token_lemma (filter (\<lambda>t. \<not> token_is_stop t \<and> \<not> token_is_punct t) d))"

definition feature_row :: "(string \<Rightarrow> doc) \<Rightarrow> string \<Rightarrow> int \<Rightarrow> frame_row" where
  "feature_row nlp text days =
     \<lparr> numeric =
         [of_int days,
          of_nat (occurrences token_pos NOUN (nlp text)),
          of_nat (occurrences token_pos VERB (nlp text)),
          of_nat (occurrences token_pos ADJ (nlp text)),
          of_nat (occurrences token_ent_type PERSON (nlp text)),
          of_nat (occurrences token_ent_type ORG (nlp text)),
          of_nat (occurrences token_ent_type GPE (nlp text)),
          of_nat (occurrences token_ent_type DATE (nlp text))],
       tokens = cleaned (nlp text) \<rparr>"

text \<open>
  A row of the scaled table: every numeric column of the row rescaled with the minimum
  and the maximum of that column over the table \<open>X\<close>.
\<close>

definition scaled_row :: "rat list list \<Rightarrow> rat list \<Rightarrow> rat list" where
  "scaled_row X row =
     map (\<lambda>c. minmax (Min (set (column c X))) (Max (set (column c X))) (row ! c)) [0..<8]"

subsection \<open>Stage 4, continued: the n-gram model\<close>

text \<open>
  Modelled from the spec: the frequency-weighted n-gram model
  (\<^verbatim>\<open>TfidfVectorizer(ngram_range=(1, 3), max_df=0.9, max_features=100000)\<close>, a library
  routine). An n-gram is a contiguous sequence of one to three tokens of a token string,
  written with single spaces. Fitting collects the n-grams of the training documents,
  drops those that appear in more than 90% of the documents, keeps at most 100000 of them
  (the most frequent by document frequency, ties in lexicographic order) and gives each
  retained n-gram one column, in lexicographic order, and one weight; fitting fails when
  no n-gram is retained. Transforming a
  document counts, for each column, the occurrences of its n-gram in the document and
  multiplies the count by the weight of the column; an n-gram of the document that is
  not in the vocabulary is skipped. How a token string is cut into tokens
  (\<open>tokenize\<close>) and how a weight follows from the number of documents and the document
  frequency (\<open>idf\<close>) are parameters.
\<close>

fun ngrams :: "nat \<Rightarrow> string list \<Rightarrow> string list" where
  "ngrams n [] = []"
| "ngrams n (w # ws) =
     (if 0 < n \<and> n \<le> length (w # ws) then [join '' '' (take n (w # ws))] else [])
     @ ngrams n ws"

definition analyze :: "(string \<Rightarrow> string list) \<Rightarrow> string \<Rightarrow> string list" where
  "analyze tokenize document =
     (let ws = tokenize document in ngrams 1 ws @ ngrams 2 ws @ ngrams 3 ws)"

definition document_frequency :: "string list list \<Rightarrow> string \<Rightarrow> nat" where
  "document_frequency analyzed g = length (filter (\<lambda>grams. g \<in> set grams) analyzed)"

definition max_features :: nat where
  "max_features = 100000"

record vectorizer =
  vocabulary :: "string list"
  weights :: "rat list"

definition vectorizer_fit ::
    "(string \<Rightarrow> string list) \<Rightarrow> (nat \<Rightarrow> nat \<Rightarrow> rat) \<Rightarrow> string list \<Rightarrow>
     error + vectorizer" where
  "vectorizer_fit tokenize idf documents =
     (let analyzed = map (analyze tokenize) documents;
          n = length documents;
          candidates = sort (remdups (concat analyzed));
          frequent = filter (\<lambda>g. 10 * document_frequency analyzed g \<le> 9 * n) candidates;
          kept = take max_features
                   (sort_key (\<lambda>g. - int (document_frequency analyzed g)) frequent);
          columns = sort kept
      in if columns = [] then Inl EmptyVocabulary
         else Inr \<lparr> vocabulary = columns,
                    weights = map (\<lambda>g. idf n (document_frequency analyzed g)) columns \<rparr>)"

fun column_of :: "string list \<Rightarrow> string \<Rightarrow> nat option" where
  "column_of [] g = None"
| "column_of (v # vs) g =
     (if v = g then Some 0
      else case column_of vs g of None \<Rightarrow> None | Some j \<Rightarrow> Some (Suc j))"

fun count_ngrams :: "string list \<Rightarrow> string list \<Rightarrow> nat list \<Rightarrow> nat list" where
  "count_ngrams vocab [] counts = counts"
| "count_ngrams vocab (g # gs) counts =
     (case column_of vocab g of
        None \<Rightarrow> count_ngrams vocab gs counts
      | Some j \<Rightarrow> count_ngrams vocab gs (counts[j := counts ! j + 1]))"

definition vectorizer_transform ::
    "(string \<Rightarrow> string list) \<Rightarrow> vectorizer \<Rightarrow> string \<Rightarrow> rat list" where
  "vectorizer_transform tokenize v document =
     map (\<lambda>(c, w). of_nat c * w)
       (zip (count_ngrams (vocabulary v) (analyze tokenize document)
               (replicate (length (vocabulary v)) 0))
            (weights v))"

text \<open>
  \<^verbatim>\<open>
  vectorizer = TfidfVectorizer(ngram_range=(1, 3), max_df=0.9, max_features=100000)
  X_train_tokens_vectorized = vectorizer.fit_transform(X_train['tokens'])
  X_test_tokens_vectorized = vectorizer.transform(X_test['tokens'])
  X_train_additional_features = X_train[['Days', ..., 'DATE_count']].to_numpy()
  X_test_additional_features = X_test[['Days', ..., 'DATE_count']].to_numpy()
  X_train_combined = hstack((X_train_tokens_vectorized.toarray(), X_train_additional_features))
  X_test_combined = hstack((X_test_tokens_vectorized.toarray(), X_test_additional_features))
  \<close>
\<close>

definition hstack :: "rat list list \<Rightarrow> rat list list \<Rightarrow> rat list list" where
  "hstack A B = map (\<lambda>(a, b). a @ b) (zip A B)"

definition vectorize ::
    "(string \<Rightarrow> string list) \<Rightarrow> (nat \<Rightarrow> nat \<Rightarrow> rat) \<Rightarrow> frame_row list \<Rightarrow> frame_row list \<Rightarrow>
     error + vectorizer \<times> rat list list \<times> rat list list" where
  "vectorize tokenize idf X_train X_test =
     (case vectorizer_fit tokenize idf (map tokens X_train) of
        Inl e \<Rightarrow> Inl e
      | Inr v \<Rightarrow>
          (let X_train_tokens_vectorized =
                 map (vectorizer_transform tokenize v) (map tokens X_train);
               X_test_tokens_vectorized =
                 map (vectorizer_transform tokenize v) (map tokens X_test);
               X_train_additional_features = map numeric X_train;
               X_test_additional_features = map numeric X_test
           in Inr (v,
                hstack X_train_tokens_vectorized X_train_additional_features,
                hstack X_test_tokens_vectorized X_test_additional_features)))"

subsection \<open>Example inputs\<close>

text \<open>
  A small movie table with one well-formed date, one date of eight characters and one
  string of ten characters that is no date; three reviews, of which one belongs to the
  movie with the short date and one to no movie at all; and a date parser that knows
  the four dates.
\<close>

definition ex_movies :: "movie list" where
  "ex_movies =
     [\<lparr>movie_id = ''tt1'', release_date = ''2020-01-01''\<rparr>,
      \<lparr>movie_id = ''tt2'', release_date = ''2020-1-1''\<rparr>,
      \<lparr>movie_id = ''tt3'', release_date = ''abcdefghij''\<rparr>]"

definition ex_reviews :: "review list" where
  "ex_reviews =
     [\<lparr>review_movie_id = ''tt1'', review_date = ''2020-01-11'', review_summary = Some ''Good'',
        review_text = Some ''He dies.'', is_spoiler = True\<rparr>,
      \<lparr>review_movie_id = ''tt2'', review_date = ''2020-01-02'', review_summary = None,
        review_text = Some ''Fine'', is_spoiler = False\<rparr>,
      \<lparr>review_movie_id = ''tt9'', review_date = ''2020-01-03'', review_summary = Some ''Bad'',
        review_text = Some ''Dull'', is_spoiler = False\<rparr>]"

definition ex_parse :: "string \<Rightarrow> int option" where
  "ex_parse s =
     (if s = ''2020-01-01'' then Some 18262
      else if s = ''2020-01-02'' then Some 18263
      else if s = ''2020-01-03'' then Some 18264
      else if s = ''2020-01-11'' then Some 18272
      else None)"


text \<open>
  A parser for two review texts, with stop words that are a pronoun, a noun and a
  numeral, and a table of two reviews of the same movie with different labels.
\<close>

definition ex_token :: "string \<Rightarrow> bool \<Rightarrow> bool \<Rightarrow> symbol \<Rightarrow> symbol \<Rightarrow> token" where
  "ex_token l s p tag ent =
     \<lparr> token_lemma = l, token_is_stop = s, token_is_punct = p, token_pos = tag,
       token_ent_type = ent \<rparr>"

definition ex_nlp :: "string \<Rightarrow> doc" where
  "ex_nlp text =
     (if text = ''Good He dies.'' then
        [ex_token ''good'' False False ADJ (OtherSymbol 0),
         ex_token ''he'' True False (OtherSymbol 95) (OtherSymbol 0),
         ex_token ''die'' False False VERB (OtherSymbol 0),
         ex_token ''.'' False True (OtherSymbol 97) (OtherSymbol 0)]
      else if text = ''Dull part two.'' then
        [ex_token ''dull'' False False ADJ (OtherSymbol 0),
         ex_token ''part'' True False NOUN (OtherSymbol 0),
         ex_token ''two'' True False (OtherSymbol 93) (OtherSymbol 397),
         ex_token ''.'' False True (OtherSymbol 97) (OtherSymbol 0)]
      else [])"

definition ex_table :: "merged_row list" where
  "ex_table =
     [\<lparr> merged_movie_id = ''tt1'', merged_review = ex_reviews ! 0, merged_movie = ex_movies ! 0,
        days_since_release = 10, review_combined = ''Good He dies.'' \<rparr>,
      \<lparr> merged_movie_id = ''tt1'',
        merged_review = \<lparr>review_movie_id = ''tt1'', review_date = ''2020-01-04'',
          review_summary = Some ''Dull'', review_text = Some ''part two.'', is_spoiler = False\<rparr>,
        merged_movie = ex_movies ! 0,
        days_since_release = 3, review_combined = ''Dull part two.'' \<rparr>]"


text \<open>
  The feature lists of the two reviews, the table built from them and its scaling. The
  adjective count is the same in both rows.
\<close>

definition ex_features :: "cell list list" where
  "ex_features =
     [[IntC 10, IntC 0, IntC 1, IntC 1, IntC 0, IntC 0, IntC 0, IntC 0, StrC ''good die''],
      [IntC 3, IntC 1, IntC 0, IntC 1, IntC 0, IntC 0, IntC 0, IntC 0, StrC ''dull'']]"

definition ex_frame :: "frame_row list" where
  "ex_frame =
     [\<lparr>numeric = [10, 0, 1, 1, 0, 0, 0, 0], tokens = ''good die''\<rparr>,
      \<lparr>numeric = [3, 1, 0, 1, 0, 0, 0, 0], tokens = ''dull''\<rparr>]"

definition ex_scaled :: "frame_row list" where
  "ex_scaled =
     [\<lparr>numeric = [1, 0, 1, 0, 0, 0, 0, 0], tokens = ''good die''\<rparr>,
      \<lparr>numeric = [0, 1, 0, 0, 0, 0, 0, 0], tokens = ''dull''\<rparr>]"

text \<open>A split that sends the first row to the train and the second to the test partition.\<close>

definition ex_splitter :: "bool list \<Rightarrow> nat list \<times> nat list" where
  "ex_splitter y = ([0], [1])"


text \<open>
  A tokenizer that cuts a token string at its spaces, a weight function, and a train
  partition of two rows with a test partition of two rows: the only token of the first
  is unknown to the train partition, the second has one token of the train partition.
\<close>

fun split_words :: "string \<Rightarrow> string \<Rightarrow> string list" where
  "split_words [] w = (if w = [] then [] else [w])"
| "split_words (c # cs) w =
     (if c = CHR '' '' then (if w = [] then [] else [w]) @ split_words cs []
      else split_words cs (w @ [c]))"

definition ex_tokenize :: "string \<Rightarrow> string list" where
  "ex_tokenize s = split_words s []"

definition ex_idf :: "nat \<Rightarrow> nat \<Rightarrow> rat" where
  "ex_idf n d = 1 + of_nat n / of_nat (1 + d)"

definition ex_train :: "frame_row list" where
  "ex_train =
     [\<lparr>numeric = [1, 0, 1, 0, 0, 0, 0, 0], tokens = ''good die''\<rparr>,
      \<lparr>numeric = [1 / 2, 1, 0, 0, 0, 0, 0, 0], tokens = ''good film''\<rparr>]"

definition ex_test :: "frame_row list" where
  "ex_test =
     [\<lparr>numeric = [0, 1, 0, 0, 0, 0, 0, 0], tokens = ''dull''\<rparr>,
      \<lparr>numeric = [1 / 4, 0, 1, 0, 0, 0, 0, 0], tokens = ''die dull''\<rparr>]"

subsection \<open>Facts about stage 1\<close>

lemma to_datetime_Inr:
  "to_datetime parse ss = Inr ds \<longleftrightarrow> map parse ss = map Some ds"
proof (induction ss arbitrary: ds)
  case Nil
  then show ?case by auto
next
  case (Cons s ss)
  show ?case
  proof (cases "parse s")
    case None
    then show ?thesis by (cases ds) auto
  next
    case (Some d)
    show ?thesis
    proof (cases "to_datetime parse ss")
      case (Inl e)
      then have "map parse ss \<noteq> map Some ds'" for ds'
        using Cons.IH [of ds'] by simp
      with Some Inl show ?thesis by (cases ds) auto
    next
      case (Inr ds')
      then have "map parse ss = map Some ds'"
        using Cons.IH [of ds'] by simp
      with Some Inr show ?thesis by (cases ds) auto
    qed
  qed
qed

lemma to_datetime_total:
  "(\<forall>s \<in> set ss. parse s \<noteq> None) \<Longrightarrow> \<exists>ds. to_datetime parse ss = Inr ds"
  by (induction ss) (auto split: option.splits sum.splits)

lemma to_datetime_length:
  "to_datetime parse ss = Inr ds \<Longrightarrow> length ds = length ss"
  by (metis length_map to_datetime_Inr)

lemma in_set_merge:
  "(l, r) \<in> set (merge left right) \<longleftrightarrow>
     l \<in> set left \<and> r \<in> set right \<and> movie_id (fst r) = review_movie_id (fst l)"
  by (auto simp: merge_def)

lemma join_and_filter_Inr:
  assumes "join_and_filter parse rs ms = Inr rows"
  obtains review_days release_days where
    "to_datetime parse (map review_date rs) = Inr review_days"
    "to_datetime parse (map release_date (filter_valid_release_dates ms)) = Inr release_days"
    "rows = map derive_row (merge (zip rs review_days)
       (zip (filter_valid_release_dates ms) release_days))"
  using assms unfolding join_and_filter_def Let_def
  by (auto split: sum.splits)

lemma merged_movie_derive_row [simp]:
  "merged_movie (derive_row ((r, a), (m, b))) = m"
  "merged_review (derive_row ((r, a), (m, b))) = r"
  "merged_movie_id (derive_row ((r, a), (m, b))) = review_movie_id r"
  "days_since_release (derive_row ((r, a), (m, b))) = a - b"
  by (simp_all add: derive_row_def)

lemma join_rows_from_filtered:
  assumes "join_and_filter parse rs ms = Inr rows" "row \<in> set rows"
  shows "merged_movie row \<in> set (filter_valid_release_dates ms)
    \<and> merged_review row \<in> set rs
    \<and> movie_id (merged_movie row) = merged_movie_id row
    \<and> review_movie_id (merged_review row) = merged_movie_id row"
proof -
  from assms(1) obtain review_days release_days where
    rows: "rows = map derive_row (merge (zip rs review_days)
       (zip (filter_valid_release_dates ms) release_days))"
    by (rule join_and_filter_Inr)
  from assms(2) rows obtain r a m b where
    row: "row = derive_row ((r, a), (m, b))" and
    mem: "((r, a), (m, b)) \<in> set (merge (zip rs review_days)
       (zip (filter_valid_release_dates ms) release_days))"
    by auto
  from mem have "(r, a) \<in> set (zip rs review_days)"
    "(m, b) \<in> set (zip (filter_valid_release_dates ms) release_days)"
    "movie_id m = review_movie_id r"
    by (simp_all add: in_set_merge)
  then show ?thesis
    using row by (auto dest: set_zip_leftD)
qed

lemma ex_filter: "filter_valid_release_dates ex_movies = [ex_movies ! 0, ex_movies ! 2]"
  by (simp add: filter_valid_release_dates_def ex_movies_def)

lemma ex_join: "join_and_filter ex_parse ex_reviews (take 2 ex_movies) = Inr
  [\<lparr>merged_movie_id = ''tt1'', merged_review = ex_reviews ! 0, merged_movie = ex_movies ! 0,
     days_since_release = 10, review_combined = ''Good He dies.''\<rparr>]"
  by (simp add: join_and_filter_def ex_reviews_def ex_movies_def ex_parse_def
      filter_valid_release_dates_def merge_def derive_row_def astype_str_def)

subsection \<open>Facts about stage 2\<close>

lemma get_increment:
  "get (increment counts k') k 0 = get counts k 0 + (if k' = k then 1 else 0)"
  by (simp add: get_def increment_def split: option.splits)

lemma get_count_loop:
  "get (count_loop attr d counts) k 0 = get counts k 0 + occurrences attr k d"
  by (induction d arbitrary: counts) (simp_all add: occurrences_def get_increment)

lemma get_count_by: "get (count_by attr d) k 0 = occurrences attr k d"
  by (simp add: count_by_def get_count_loop) (simp add: get_def)

lemma preprocess_closed_form:
  "preprocess nlp text days = Inr
     [IntC days,
      IntC (int (occurrences token_pos NOUN (nlp text))),
      IntC (int (occurrences token_pos VERB (nlp text))),
      IntC (int (occurrences token_pos ADJ (nlp text))),
      IntC (int (occurrences token_ent_type PERSON (nlp text))),
      IntC (int (occurrences token_ent_type ORG (nlp text))),
      IntC (int (occurrences token_ent_type GPE (nlp text))),
      IntC (int (occurrences token_ent_type DATE (nlp text))),
      StrC (cleaned (nlp text))]"
  by (simp add: preprocess_def Let_def get_count_by cleaned_def)

lemma collect_all_Inr: "collect (map Inr xs) acc = Inr (acc @ xs)"
  by (induction xs arbitrary: acc) simp_all


lemma all_or_error_all_Inr: "all_or_error (map Inr xs) = Inr xs"
  by (induction xs) simp_all

lemma all_or_error_Inr_iff: "all_or_error rs = Inr vs \<longleftrightarrow> rs = map Inr vs"
proof (induction rs arbitrary: vs)
  case Nil
  then show ?case by auto
next
  case (Cons r rs)
  show ?case
  proof (cases r)
    case (Inl e)
    then show ?thesis by (cases vs) auto
  next
    case (Inr v)
    show ?thesis
    proof (cases "all_or_error rs")
      case (Inl e)
      then have "rs \<noteq> map Inr vs'" for vs'
        using Cons.IH [of vs'] by simp
      with Inr Inl show ?thesis by (cases vs) auto
    next
      case r: (Inr vs')
      then have "rs = map Inr vs'"
        using Cons.IH [of vs'] by simp
      with Inr r show ?thesis by (cases vs) (auto simp: all_or_error_all_Inr)
    qed
  qed
qed

lemma frame_row_of_preprocess:
  "preprocess nlp text days = Inr features \<Longrightarrow>
   frame_row_of features = Inr (feature_row nlp text days)"
  by (auto simp: preprocess_closed_form frame_row_of_def feature_row_def)

lemma submit_table:
  "submit nlp (texts_of df) (days_of df) =
     map (\<lambda>r. preprocess nlp (review_combined r) (days_since_release r)) (take sample_cap df)"
  by (simp add: submit_def texts_of_def days_of_def zip_map_map zip_same_conv_map)

lemma permutation_in_range:
  "mset order = mset [0..<n] \<Longrightarrow> i \<in> set order \<Longrightarrow> i < n"
  by (metis atLeastLessThan_iff mset_eq_setD set_upt)

lemma extract_features_permuted:
  assumes "mset order = mset [0..<length (take sample_cap df)]"
  shows "\<exists>rows. extract_features nlp order df = Inr rows
    \<and> map Inr rows = map (\<lambda>i. preprocess nlp (review_combined (df ! i)) (days_since_release (df ! i))) order"
proof -
  let ?t = "take sample_cap df"
  let ?f = "\<lambda>r. preprocess nlp (review_combined r) (days_since_release r)"
  have rng: "i < length ?t" if "i \<in> set order" for i
    using assms that by (rule permutation_in_range)
  have "as_completed order (map ?f ?t) = map (\<lambda>i. ?f (df ! i)) order"
    unfolding as_completed_def using rng by (intro map_cong) auto
  moreover obtain rows where rows: "map (\<lambda>i. ?f (df ! i)) order = map Inr rows"
  proof
    show "map (\<lambda>i. ?f (df ! i)) order =
      map Inr (map (\<lambda>i. projr (?f (df ! i))) order)"
      by (simp add: preprocess_closed_form)
  qed
  ultimately have "extract_features nlp order df = Inr rows"
    by (simp add: extract_features_def submit_table collect_all_Inr)
  with rows show ?thesis by auto
qed


lemma post_extraction_table:
  assumes "mset order = mset [0..<length (take sample_cap df)]"
  shows "\<exists>rows. extract_features nlp order df = Inr rows
    \<and> rows = map (\<lambda>i. projr (preprocess nlp (review_combined (df ! i)) (days_since_release (df ! i)))) order
    \<and> DataFrame rows =
        Inr (map (\<lambda>i. feature_row nlp (review_combined (df ! i)) (days_since_release (df ! i))) order)"
proof -
  let ?f = "\<lambda>i. preprocess nlp (review_combined (df ! i)) (days_since_release (df ! i))"
  from extract_features_permuted [OF assms] obtain rows where
    run: "extract_features nlp order df = Inr rows" and
    rows: "map Inr rows = map ?f order"
    by blast
  have eq: "rows = map (\<lambda>i. projr (?f i)) order"
  proof -
    have "map projr (map Inr rows :: (error + cell list) list) = rows"
      by (simp add: comp_def)
    then show ?thesis by (simp add: rows comp_def)
  qed
  have "map frame_row_of rows =
    map Inr (map (\<lambda>i. feature_row nlp (review_combined (df ! i)) (days_since_release (df ! i))) order)"
    unfolding eq by (simp add: preprocess_closed_form frame_row_of_def feature_row_def)
  then have "DataFrame rows =
    Inr (map (\<lambda>i. feature_row nlp (review_combined (df ! i)) (days_since_release (df ! i))) order)"
    unfolding DataFrame_def by (simp only: all_or_error_all_Inr)
  with run eq show ?thesis by blast
qed

lemma ex_order: "mset [1, 0] = mset [0..<length (take sample_cap ex_table)]"
  by (simp add: sample_cap_def ex_table_def upt_rec)

lemma ex_texts:
  "review_combined (ex_table ! 0) = ''Good He dies.''"
  "review_combined (ex_table ! Suc 0) = ''Dull part two.''"
  "days_since_release (ex_table ! 0) = 10"
  "days_since_release (ex_table ! Suc 0) = 3"
  by (simp_all add: ex_table_def)

lemma ex_cleaned:
  "join '' '' (map token_lemma (filter (\<lambda>t. \<not> token_is_stop t \<and> \<not> token_is_punct t)
     (ex_nlp ''Good He dies.''))) = ''good die''"
  "join '' '' (map token_lemma (filter (\<lambda>t. \<not> token_is_stop t \<and> \<not> token_is_punct t)
     (ex_nlp ''Dull part two.''))) = ''dull''"
  by (simp_all add: ex_nlp_def ex_token_def)

lemma ex_prepare_reversed:
  "prepare ex_nlp [1, 0] ex_table = Inr
     ([\<lparr>numeric = [0, 1, 0, 0, 0, 0, 0, 0], tokens = ''dull''\<rparr>,
       \<lparr>numeric = [1, 0, 1, 0, 0, 0, 0, 0], tokens = ''good die''\<rparr>],
      [True, False])"
  by code_simp


subsection \<open>Facts about stage 3\<close>

lemma fit_column_Min_Max:
  assumes "xs \<noteq> []"
  shows "fit_column xs = Inr (Min (set xs), Max (set xs))"
proof (cases xs)
  case Nil
  with assms show ?thesis by simp
next
  case (Cons a list)
  have "fold min list a = Min (set (a # list))" "fold max list a = Max (set (a # list))"
    by (simp_all only: Min.set_eq_fold Max.set_eq_fold)
  with Cons show ?thesis by simp
qed

lemma column_nonempty: "X \<noteq> [] \<Longrightarrow> column c X \<noteq> []"
  by (simp add: column_def)

lemma scaler_fit_closed_form:
  assumes "X \<noteq> []"
  shows "scaler_fit X =
    Inr (map (\<lambda>c. (Min (set (column c X)), Max (set (column c X)))) [0..<8])"
proof -
  have "map (\<lambda>c. fit_column (column c X)) [0..<8] =
    map Inr (map (\<lambda>c. (Min (set (column c X)), Max (set (column c X)))) [0..<8])"
    using assms by (simp add: fit_column_Min_Max column_nonempty)
  then show ?thesis
    unfolding scaler_fit_def by (simp only: all_or_error_all_Inr)
qed

lemma scale_value_minmax: "scale_value (lo, hi) x = Inr (minmax lo hi x)"
  by (simp add: scale_value_def minmax_def divide_def)

lemma minmax_bounds:
  assumes "lo \<le> x" "x \<le> hi"
  shows "0 \<le> minmax lo hi x" "minmax lo hi x \<le> 1"
  using assms by (simp_all add: minmax_def)

lemma minmax_at_min: "minmax lo hi lo = 0"
  by (simp add: minmax_def)

lemma minmax_at_max: "lo \<noteq> hi \<Longrightarrow> minmax lo hi hi = 1"
  by (simp add: minmax_def)

lemma minmax_constant: "minmax lo lo x = 0"
  by (simp add: minmax_def)

lemma transform_row_closed_form:
  assumes "length row = 8"
  shows "all_or_error (map (\<lambda>(p, x). scale_value p x)
      (zip (map (\<lambda>c. (Min (set (column c X)), Max (set (column c X)))) [0..<8]) row)) =
    Inr (scaled_row X row)"
proof -
  have row: "row = map (\<lambda>c. row ! c) [0..<8]"
    using assms by (metis map_nth)
  have "map (\<lambda>(p, x). scale_value p x)
      (zip (map (\<lambda>c. (Min (set (column c X)), Max (set (column c X)))) [0..<8])
           (map (\<lambda>c. row ! c) [0..<8])) =
    map Inr (scaled_row X row)"
    unfolding scaled_row_def zip_map_map
    by (simp add: zip_same_conv_map scale_value_minmax)
  with row show ?thesis
    by (metis all_or_error_all_Inr)
qed

lemma scaler_fit_transform_closed_form:
  assumes "X \<noteq> []" "\<forall>row \<in> set X. length row = 8"
  shows "scaler_fit_transform X = Inr (map (scaled_row X) X)"
proof -
  let ?params = "map (\<lambda>c. (Min (set (column c X)), Max (set (column c X)))) [0..<8]"
  have "map (\<lambda>row. if length row \<noteq> length ?params then Inl ShapeError
       else all_or_error (map (\<lambda>(p, x). scale_value p x) (zip ?params row))) X =
     map Inr (map (scaled_row X) X)"
    using assms(2) by (simp add: transform_row_closed_form)
  then have "scaler_transform ?params X = Inr (map (scaled_row X) X)"
    unfolding scaler_transform_def by (simp only: all_or_error_all_Inr)
  then show ?thesis
    by (simp add: scaler_fit_transform_def scaler_fit_closed_form [OF assms(1)])
qed

lemma scale_frame_closed_form:
  assumes "df \<noteq> []" "\<forall>r \<in> set df. length (numeric r) = 8"
  shows "scale_frame df =
    Inr (map (\<lambda>r. r\<lparr>numeric := scaled_row (map numeric df) (numeric r)\<rparr>) df)"
proof -
  have "scaler_fit_transform (map numeric df) =
    Inr (map (scaled_row (map numeric df)) (map numeric df))"
    using assms by (intro scaler_fit_transform_closed_form) auto
  then show ?thesis
    by (simp add: scale_frame_def zip_map2 zip_same_conv_map comp_def)
qed

lemma DataFrame_well_formed:
  assumes "DataFrame processed_texts = Inr frame" "r \<in> set frame"
  shows "length (numeric r) = 8"
proof -
  from assms(1) have "map frame_row_of processed_texts = map Inr frame"
    by (simp add: DataFrame_def all_or_error_Inr_iff)
  with assms(2) obtain features where "frame_row_of features = Inr r"
    by (metis (no_types, lifting) imageE image_eqI list.set_map)
  then obtain nums where
    "length features = 9" "all_or_error (map as_float (take 8 features)) = Inr nums"
    "numeric r = nums"
    by (auto simp: frame_row_of_def split: if_splits sum.splits cell.splits)
  then have "map as_float (take 8 features) = map Inr nums" "length features = 9"
    by (simp_all add: all_or_error_Inr_iff)
  then have "length (map Inr nums :: (error + rat) list) = min (length features) 8"
    by (metis length_map length_take)
  then have "length nums = 8"
    using \<open>length features = 9\<close> by simp
  with \<open>numeric r = nums\<close> show ?thesis by simp
qed


lemma nth_scaled_row:
  "c < 8 \<Longrightarrow> scaled_row X row ! c =
     minmax (Min (set (column c X))) (Max (set (column c X))) (row ! c)"
  unfolding scaled_row_def by (simp del: upt_Suc)

lemma column_bounds:
  assumes "i < length X"
  shows "Min (set (column c X)) \<le> X ! i ! c" "X ! i ! c \<le> Max (set (column c X))"
proof -
  have "X ! i ! c \<in> set (column c X)"
    using assms by (auto simp: column_def)
  then show "Min (set (column c X)) \<le> X ! i ! c" "X ! i ! c \<le> Max (set (column c X))"
    by simp_all
qed

lemma ex_DataFrame: "DataFrame ex_features = Inr ex_frame"
  by (simp add: DataFrame_def ex_features_def ex_frame_def frame_row_of_def)

lemma ex_scale_frame: "scale_frame ex_frame = Inr ex_scaled"
  by code_simp

lemma ex_columns:
  "column 0 (map numeric ex_frame) = [10, 3]"
  "column 3 (map numeric ex_frame) = [1, 1]"
  by (simp_all add: column_def ex_frame_def)

subsection \<open>Facts about the pipeline up to the split\<close>

lemma take_sample_cap_nonempty: "df \<noteq> [] \<Longrightarrow> take sample_cap df \<noteq> []"
  by (cases df) (simp_all add: sample_cap_def)

lemma permutation_length:
  "mset order = mset [0..<n] \<Longrightarrow> length order = n"
  by (metis length_upt minus_nat.diff_0 size_mset)

lemma feature_row_well_formed: "length (numeric (feature_row nlp t d)) = 8"
  by (simp add: feature_row_def)

lemma prepare_closed_form:
  assumes "mset order = mset [0..<length (take sample_cap df)]" and "df \<noteq> []"
  shows "prepare nlp order df =
    Inr (map (\<lambda>r. r\<lparr>numeric := scaled_row
            (map numeric (map (\<lambda>i. feature_row nlp (review_combined (df ! i))
               (days_since_release (df ! i))) order)) (numeric r)\<rparr>)
          (map (\<lambda>i. feature_row nlp (review_combined (df ! i)) (days_since_release (df ! i))) order),
         labels_of df)"
proof -
  let ?frame = "map (\<lambda>i. feature_row nlp (review_combined (df ! i)) (days_since_release (df ! i))) order"
  from post_extraction_table [OF assms(1)] obtain rows where
    run: "extract_features nlp order df = Inr rows" and
    frame: "DataFrame rows = Inr ?frame"
    by blast
  have "length order = length (take sample_cap df)"
    using assms(1) by (rule permutation_length)
  moreover have "length (take sample_cap df) \<noteq> 0"
    using take_sample_cap_nonempty [OF assms(2)] by blast
  ultimately have "length ?frame \<noteq> 0" by simp
  then have ne: "?frame \<noteq> []" by blast
  have wf: "\<forall>r \<in> set ?frame. length (numeric r) = 8"
    by (auto simp: feature_row_well_formed)
  have "scale_frame ?frame =
    Inr (map (\<lambda>r. r\<lparr>numeric := scaled_row (map numeric ?frame) (numeric r)\<rparr>) ?frame)"
    using ne wf by (rule scale_frame_closed_form)
  then show ?thesis
    by (simp add: prepare_def run frame)
qed

lemma ex_order_id: "mset [0, 1] = mset [0..<length (take sample_cap ex_table)]"
  by (simp add: sample_cap_def ex_table_def upt_rec)

lemma ex_extract: "extract_features ex_nlp [0, 1] ex_table = Inr ex_features"
  by code_simp

lemma ex_refit_on_train: "scale_frame [ex_frame ! 0] =
    Inr [\<lparr>numeric = [0, 0, 0, 0, 0, 0, 0, 0], tokens = ''good die''\<rparr>]"
  by code_simp

lemma splitter_input_pairing:
  assumes "mset order = mset [0..<length (take sample_cap df)]" and "df \<noteq> []"
  shows "\<exists>X y. prepare nlp order df = Inr (X, y)
    \<and> length X = length y \<and> length y = length (take sample_cap df)
    \<and> (\<forall>j < length y.
          tokens (X ! j) = cleaned (nlp (review_combined (df ! (order ! j))))
        \<and> y ! j = is_spoiler (merged_review (df ! j)))"
proof -
  let ?frame = "map (\<lambda>i. feature_row nlp (review_combined (df ! i)) (days_since_release (df ! i))) order"
  let ?scaled = "map (\<lambda>r. r\<lparr>numeric := scaled_row (map numeric ?frame) (numeric r)\<rparr>) ?frame"
  have prep: "prepare nlp order df = Inr (?scaled, labels_of df)"
    using assms by (rule prepare_closed_form)
  have len: "length order = length (take sample_cap df)"
    using assms(1) by (rule permutation_length)
  have ly: "length (labels_of df) = length (take sample_cap df)"
    by (simp add: labels_of_def)
  show ?thesis
  proof (intro exI conjI allI impI)
    show "prepare nlp order df = Inr (?scaled, labels_of df)" by (rule prep)
    show "length ?scaled = length (labels_of df)" using len ly by simp
    show "length (labels_of df) = length (take sample_cap df)" by (rule ly)
  next
    fix j assume j: "j < length (labels_of df)"
    then show "tokens (?scaled ! j) = cleaned (nlp (review_combined (df ! (order ! j))))"
      using len ly by (simp add: feature_row_def)
    show "labels_of df ! j = is_spoiler (merged_review (df ! j))"
      using j by (simp add: labels_of_def)
  qed
qed

subsection \<open>Facts about the n-gram model\<close>

lemma ex_analyze:
  "analyze ex_tokenize ''good die'' = [''good'', ''die'', ''good die'']"
  "analyze ex_tokenize ''good film'' = [''good'', ''film'', ''good film'']"
  "analyze ex_tokenize ''dull'' = [''dull'']"
  "analyze ex_tokenize ''die dull'' = [''die'', ''dull'', ''die dull'']"
  by (simp_all add: analyze_def ex_tokenize_def)

lemma ex_fit: "vectorizer_fit ex_tokenize ex_idf [''good die'', ''good film''] =
  Inr \<lparr>vocabulary = [''die'', ''film'', ''good die'', ''good film''], weights = [2, 2, 2, 2]\<rparr>"
  by (simp add: vectorizer_fit_def ex_analyze document_frequency_def max_features_def ex_idf_def)


lemma column_of_None: "column_of vocab g = None \<longleftrightarrow> g \<notin> set vocab"
  by (induction vocab) (auto split: option.splits)

lemma count_ngrams_unknown:
  "set gs \<inter> set vocab = {} \<Longrightarrow> count_ngrams vocab gs counts = counts"
proof (induction gs arbitrary: counts)
  case Nil
  then show ?case by simp
next
  case (Cons g gs)
  from Cons.prems have "column_of vocab g = None" "set gs \<inter> set vocab = {}"
    by (auto simp: column_of_None)
  with Cons.IH show ?case by simp
qed

lemma count_ngrams_length: "length (count_ngrams vocab gs counts) = length counts"
  by (induction gs arbitrary: counts) (auto split: option.splits)

lemma zero_counts_weighted:
  "length ws = n \<Longrightarrow>
   map (\<lambda>(c, w). of_nat c * w) (zip (replicate n (0::nat)) ws) = replicate n (0::rat)"
proof (induction ws arbitrary: n)
  case Nil
  then show ?case by simp
next
  case (Cons w ws)
  then obtain m where "n = Suc m" "length ws = m" by auto
  with Cons.IH [of m] show ?case by simp
qed

lemma transform_unknown:
  assumes "length (weights v) = length (vocabulary v)"
    and "set (analyze tokenize document) \<inter> set (vocabulary v) = {}"
  shows "vectorizer_transform tokenize v document = replicate (length (vocabulary v)) 0"
  using assms by (simp add: vectorizer_transform_def count_ngrams_unknown zero_counts_weighted)

lemma vectorizer_fit_Inr:
  assumes "vectorizer_fit tokenize idf documents = Inr v"
  shows "length (weights v) = length (vocabulary v)"
    and "vocabulary v \<noteq> []"
    and "set (vocabulary v) \<subseteq> (\<Union>d \<in> set documents. set (analyze tokenize d))"
    and "\<forall>g \<in> set (vocabulary v).
           10 * document_frequency (map (analyze tokenize) documents) g \<le> 9 * length documents"
    and "length (vocabulary v) \<le> max_features"
proof -
  let ?analyzed = "map (analyze tokenize) documents"
  let ?frequent = "filter (\<lambda>g. 10 * document_frequency ?analyzed g \<le> 9 * length documents)
    (sort (remdups (concat ?analyzed)))"
  let ?columns = "sort (take max_features
    (sort_key (\<lambda>g. - int (document_frequency ?analyzed g)) ?frequent))"
  from assms have v: "v = \<lparr> vocabulary = ?columns,
      weights = map (\<lambda>g. idf (length documents) (document_frequency ?analyzed g)) ?columns \<rparr>"
    and ne: "?columns \<noteq> []"
    by (auto simp: vectorizer_fit_def Let_def split: if_splits)
  show "length (weights v) = length (vocabulary v)" by (simp add: v)
  show "vocabulary v \<noteq> []" using ne by (simp add: v)
  have sub: "set ?columns \<subseteq> set ?frequent"
    using set_take_subset [of max_features
      "sort_key (\<lambda>g. - int (document_frequency ?analyzed g)) ?frequent"]
    by simp
  then show "set (vocabulary v) \<subseteq> (\<Union>d \<in> set documents. set (analyze tokenize d))"
    by (auto simp: v)
  show "\<forall>g \<in> set (vocabulary v).
      10 * document_frequency ?analyzed g \<le> 9 * length documents"
    using sub by (auto simp: v)
  show "length (vocabulary v) \<le> max_features" by (simp add: v)
qed

lemma nth_hstack:
  "k < length A \<Longrightarrow> k < length B \<Longrightarrow> hstack A B ! k = A ! k @ B ! k"
  by (simp add: hstack_def)

lemma column_of_Some:
  "column_of vocab g = Some i \<Longrightarrow> i < length vocab \<and> vocab ! i = g"
proof (induction vocab arbitrary: i)
  case Nil
  then show ?case by simp
next
  case (Cons v vs)
  show ?case
  proof (cases "v = g")
    case True
    with Cons.prems show ?thesis by simp
  next
    case False
    with Cons.prems obtain j where j: "column_of vs g = Some j" "i = Suc j"
      by (auto split: option.splits)
    with Cons.IH [of j] show ?thesis by simp
  qed
qed

lemma count_ngrams_nth:
  assumes "distinct vocab" and "length counts = length vocab" and "j < length vocab"
  shows "count_ngrams vocab gs counts ! j = counts ! j + count_list gs (vocab ! j)"
  using assms(2)
proof (induction gs arbitrary: counts)
  case Nil
  then show ?case by simp
next
  case (Cons g gs)
  show ?case
  proof (cases "column_of vocab g")
    case None
    then have "g \<noteq> vocab ! j"
      using assms(3) by (auto simp: column_of_None)
    with None Cons show ?thesis by simp
  next
    case (Some i)
    then have i: "i < length vocab" "vocab ! i = g"
      using column_of_Some by blast+
    have eq: "g = vocab ! j \<longleftrightarrow> i = j"
      using i assms(1,3) by (auto simp: nth_eq_iff_index_eq)
    have len: "length (counts[i := counts ! i + 1]) = length vocab"
      using Cons.prems by simp
    have "count_ngrams vocab (g # gs) counts ! j =
        counts[i := counts ! i + 1] ! j + count_list gs (vocab ! j)"
      using Some Cons.IH [OF len] by simp
    also have "\<dots> = counts ! j + count_list (g # gs) (vocab ! j)"
      using i(1) assms(3) Cons.prems eq by (auto simp: nth_list_update)
    finally show ?thesis .
  qed
qed

lemma vectorizer_fit_distinct:
  assumes "vectorizer_fit tokenize idf documents = Inr v"
  shows "distinct (vocabulary v)"
proof -
  from assms obtain cols where "vocabulary v = sort (take max_features
      (sort_key (\<lambda>g. - int (document_frequency (map (analyze tokenize) documents) g))
        (filter (\<lambda>g. 10 * document_frequency (map (analyze tokenize) documents) g
            \<le> 9 * length documents)
          (sort (remdups (concat (map (analyze tokenize) documents)))))))"
    by (auto simp: vectorizer_fit_def Let_def split: if_splits)
  then show ?thesis
    by (simp add: distinct_take)
qed

lemma transform_length:
  "length (weights v) = length (vocabulary v) \<Longrightarrow>
   length (vectorizer_transform tokenize v document) = length (vocabulary v)"
  by (simp add: vectorizer_transform_def count_ngrams_length)

lemma transform_nth:
  assumes "distinct (vocabulary v)" and "length (weights v) = length (vocabulary v)"
    and "j < length (vocabulary v)"
  shows "vectorizer_transform tokenize v document ! j =
    of_nat (count_list (analyze tokenize document) (vocabulary v ! j)) * weights v ! j"
  using assms
  by (simp add: vectorizer_transform_def count_ngrams_length count_ngrams_nth)


lemma vectorize_after_fit:
  assumes "vectorizer_fit tokenize idf (map tokens X_train) = Inr v"
  shows "\<exists>X_train_combined X_test_combined.
      vectorize tokenize idf X_train X_test = Inr (v, X_train_combined, X_test_combined)
    \<and> set (vocabulary v) \<subseteq> (\<Union>r \<in> set X_train. set (analyze tokenize (tokens r)))
    \<and> length X_train_combined = length X_train
    \<and> length X_test_combined = length X_test
    \<and> (\<forall>k < length X_train.
          X_train_combined ! k =
            vectorizer_transform tokenize v (tokens (X_train ! k)) @ numeric (X_train ! k))
    \<and> (\<forall>k < length X_test.
          X_test_combined ! k =
            vectorizer_transform tokenize v (tokens (X_test ! k)) @ numeric (X_test ! k)
        \<and> length (vectorizer_transform tokenize v (tokens (X_test ! k))) =
            length (vocabulary v)
        \<and> (\<forall>j < length (vocabulary v).
              vectorizer_transform tokenize v (tokens (X_test ! k)) ! j =
                of_nat (count_list (analyze tokenize (tokens (X_test ! k))) (vocabulary v ! j))
                  * weights v ! j)
        \<and> (set (analyze tokenize (tokens (X_test ! k))) \<inter> set (vocabulary v) = {} \<longrightarrow>
              vectorizer_transform tokenize v (tokens (X_test ! k)) =
                replicate (length (vocabulary v)) 0
            \<and> X_test_combined ! k =
                replicate (length (vocabulary v)) 0 @ numeric (X_test ! k)))"
proof -
  let ?tr = "hstack (map (vectorizer_transform tokenize v) (map tokens X_train))
    (map numeric X_train)"
  let ?te = "hstack (map (vectorizer_transform tokenize v) (map tokens X_test))
    (map numeric X_test)"
  have run: "vectorize tokenize idf X_train X_test = Inr (v, ?tr, ?te)"
    by (simp add: vectorize_def assms)
  have wl: "length (weights v) = length (vocabulary v)"
    using assms by (rule vectorizer_fit_Inr(1))
  have dist: "distinct (vocabulary v)"
    using assms by (rule vectorizer_fit_distinct)
  have sub: "set (vocabulary v) \<subseteq> (\<Union>r \<in> set X_train. set (analyze tokenize (tokens r)))"
    using vectorizer_fit_Inr(3) [OF assms] by simp
  have row_tr: "?tr ! k =
      vectorizer_transform tokenize v (tokens (X_train ! k)) @ numeric (X_train ! k)"
    if "k < length X_train" for k
    using that by (simp add: nth_hstack)
  have row_te: "?te ! k =
      vectorizer_transform tokenize v (tokens (X_test ! k)) @ numeric (X_test ! k)"
    if "k < length X_test" for k
    using that by (simp add: nth_hstack)
  show ?thesis
  proof (intro exI conjI allI impI)
    show "vectorize tokenize idf X_train X_test = Inr (v, ?tr, ?te)" by (rule run)
    show "set (vocabulary v) \<subseteq> (\<Union>r \<in> set X_train. set (analyze tokenize (tokens r)))"
      by (rule sub)
    show "length ?tr = length X_train" by (simp add: hstack_def)
    show "length ?te = length X_test" by (simp add: hstack_def)
  next
    fix k assume "k < length X_train"
    then show "?tr ! k =
        vectorizer_transform tokenize v (tokens (X_train ! k)) @ numeric (X_train ! k)"
      by (rule row_tr)
  next
    fix k assume k: "k < length X_test"
    show "?te ! k =
        vectorizer_transform tokenize v (tokens (X_test ! k)) @ numeric (X_test ! k)"
      using k by (rule row_te)
    show "length (vectorizer_transform tokenize v (tokens (X_test ! k))) =
        length (vocabulary v)"
      using wl by (rule transform_length)
    {
      fix j assume "j < length (vocabulary v)"
      with dist wl show "vectorizer_transform tokenize v (tokens (X_test ! k)) ! j =
          of_nat (count_list (analyze tokenize (tokens (X_test ! k))) (vocabulary v ! j))
            * weights v ! j"
        by (rule transform_nth)
    }
    {
      assume unknown: "set (analyze tokenize (tokens (X_test ! k))) \<inter> set (vocabulary v) = {}"
      with wl show zero: "vectorizer_transform tokenize v (tokens (X_test ! k)) =
          replicate (length (vocabulary v)) 0"
        by (rule transform_unknown)
      show "?te ! k = replicate (length (vocabulary v)) 0 @ numeric (X_test ! k)"
        using row_te [OF k] zero by simp
    }
  qed
qed


lemma vectorize_error_iff:
  "vectorize tokenize idf X_train X_test = Inl e \<longleftrightarrow>
   vectorizer_fit tokenize idf (map tokens X_train) = Inl e"
  by (simp add: vectorize_def Let_def split: sum.splits)

lemma ex_fit_train:
  "vectorizer_fit ex_tokenize ex_idf (map tokens ex_train) =
     Inr \<lparr>vocabulary = [''die'', ''film'', ''good die'', ''good film''], weights = [2, 2, 2, 2]\<rparr>"
  using ex_fit by (simp add: ex_train_def)


lemma ex_vectorize:
  "vectorize ex_tokenize ex_idf ex_train ex_test =
     Inr (\<lparr>vocabulary = [''die'', ''film'', ''good die'', ''good film''], weights = [2, 2, 2, 2]\<rparr>,
      [[2, 0, 2, 0, 1, 0, 1, 0, 0, 0, 0, 0],
       [0, 2, 0, 2, 1 / 2, 1, 0, 0, 0, 0, 0, 0]],
      [[0, 0, 0, 0, 0, 1, 0, 0, 0, 0, 0, 0],
       [2, 0, 0, 0, 1 / 4, 0, 1, 0, 0, 0, 0, 0]])"
  by (simp add: vectorize_def ex_train_def ex_test_def ex_fit vectorizer_transform_def
      ex_analyze hstack_def)

section \<open>The claims\<close>

subsection \<open>Stage 1\<close>

text \<open>
  C6. The date filter keeps a movie record exactly when its release-date string has ten
  characters, whatever the characters are. A record with a release date of another
  length is gone before the join: when the join succeeds, the movie of every merged row
  is a record of the input whose release date has ten characters, so a dropped record
  contributes no row.
\<close>

theorem date_filter_length_10:
  "(m \<in> set (filter_valid_release_dates ms) \<longleftrightarrow> m \<in> set ms \<and> length (release_date m) = 10)
   \<and> (join_and_filter parse rs ms = Inr rows \<longrightarrow>
        (\<forall>row \<in> set rows. merged_movie row \<in> set ms \<and> length (release_date (merged_movie row)) = 10))"
proof (intro conjI impI ballI)
  show "m \<in> set (filter_valid_release_dates ms) \<longleftrightarrow> m \<in> set ms \<and> length (release_date m) = 10"
    by (simp add: filter_valid_release_dates_def)
next
  fix row assume "join_and_filter parse rs ms = Inr rows" "row \<in> set rows"
  then have "merged_movie row \<in> set (filter_valid_release_dates ms)"
    using join_rows_from_filtered by blast
  then show "merged_movie row \<in> set ms" "length (release_date (merged_movie row)) = 10"
    by (simp_all add: filter_valid_release_dates_def)
qed

text \<open>
  On the example table the record with the date of eight characters is dropped, the two
  with ten characters are kept (one of them is no date), and the only merged row comes
  from the well-formed record.
\<close>

theorem date_filter_length_10_witness:
  "ex_movies ! 0 \<in> set (filter_valid_release_dates ex_movies)
   \<and> ex_movies ! 1 \<notin> set (filter_valid_release_dates ex_movies)
   \<and> ex_movies ! 2 \<in> set (filter_valid_release_dates ex_movies)
   \<and> length (release_date (ex_movies ! 1)) = 8
   \<and> join_and_filter ex_parse ex_reviews (take 2 ex_movies) = Inr
        [\<lparr>merged_movie_id = ''tt1'', merged_review = ex_reviews ! 0, merged_movie = ex_movies ! 0,
           days_since_release = 10, review_combined = ''Good He dies.''\<rparr>]
   \<and> length (release_date (ex_movies ! 0)) = 10"
proof -
  let ?rows = "[\<lparr>merged_movie_id = ''tt1'', merged_review = ex_reviews ! 0,
     merged_movie = ex_movies ! 0, days_since_release = 10,
     review_combined = ''Good He dies.''\<rparr>]"
  have in0: "ex_movies ! 0 \<in> set ex_movies \<and> length (release_date (ex_movies ! 0)) = 10"
    by (simp add: ex_movies_def)
  have in2: "ex_movies ! 2 \<in> set ex_movies \<and> length (release_date (ex_movies ! 2)) = 10"
    by (simp add: ex_movies_def)
  have len1: "length (release_date (ex_movies ! 1)) = 8"
    by (simp add: ex_movies_def)
  have a: "ex_movies ! 0 \<in> set (filter_valid_release_dates ex_movies)"
    using date_filter_length_10 [of "ex_movies ! 0" ex_movies] in0 by blast
  have b: "ex_movies ! 2 \<in> set (filter_valid_release_dates ex_movies)"
    using date_filter_length_10 [of "ex_movies ! 2" ex_movies] in2 by blast
  have c: "ex_movies ! 1 \<notin> set (filter_valid_release_dates ex_movies)"
    using date_filter_length_10 [of "ex_movies ! 1" ex_movies, THEN conjunct1] len1 by simp
  have d: "length (release_date (merged_movie (hd ?rows))) = 10"
    using date_filter_length_10 [of "ex_movies ! 0" "take 2 ex_movies" ex_parse ex_reviews ?rows]
      ex_join by simp
  from a b c d len1 ex_join show ?thesis by simp
qed

text \<open>
  C7. The join is an inner join. When the date columns convert, the first stage returns
  a table (it raises nothing), every row of it carries the identifier of a movie of the
  filtered set, and the reviews that appear in it are exactly the reviews whose
  identifier matches such a movie: a review without a match is dropped.
\<close>

theorem merge_is_inner_join:
  assumes "\<forall>r \<in> set rs. parse (review_date r) \<noteq> None"
      and "\<forall>m \<in> set (filter_valid_release_dates ms). parse (release_date m) \<noteq> None"
  shows "\<exists>rows. join_and_filter parse rs ms = Inr rows
     \<and> (\<forall>row \<in> set rows. merged_movie_id row \<in> movie_id ` set (filter_valid_release_dates ms))
     \<and> merged_review ` set rows =
         {r \<in> set rs. review_movie_id r \<in> movie_id ` set (filter_valid_release_dates ms)}"
proof -
  let ?fm = "filter_valid_release_dates ms"
  from assms(1) obtain rd where rd: "to_datetime parse (map review_date rs) = Inr rd"
    using to_datetime_total [of "map review_date rs" parse] by auto
  from assms(2) obtain md where md: "to_datetime parse (map release_date ?fm) = Inr md"
    using to_datetime_total [of "map release_date ?fm" parse] by auto
  have lrd: "length rd = length rs" using rd to_datetime_length by fastforce
  have lmd: "length md = length ?fm" using md to_datetime_length by fastforce
  let ?rows = "map derive_row (merge (zip rs rd) (zip ?fm md))"
  have run: "join_and_filter parse rs ms = Inr ?rows"
    by (simp add: join_and_filter_def rd md)
  have fst_l: "fst ` set (zip rs rd) = set rs" using lrd
    by (metis map_fst_zip set_map)
  have fst_r: "fst ` set (zip ?fm md) = set ?fm" using lmd
    by (metis map_fst_zip set_map)
  have ids: "\<forall>row \<in> set ?rows. merged_movie_id row \<in> movie_id ` set ?fm"
    using join_rows_from_filtered [OF run] by (metis imageI)
  have "merged_review ` set ?rows = {r \<in> set rs. review_movie_id r \<in> movie_id ` set ?fm}"
  proof (intro equalityI subsetI)
    fix r assume "r \<in> merged_review ` set ?rows"
    then obtain row where row: "row \<in> set ?rows" "r = merged_review row" by auto
    from join_rows_from_filtered [OF run row(1)] row(2)
    show "r \<in> {r \<in> set rs. review_movie_id r \<in> movie_id ` set ?fm}"
      by (metis (mono_tags, lifting) imageI mem_Collect_eq)
  next
    fix r assume "r \<in> {r \<in> set rs. review_movie_id r \<in> movie_id ` set ?fm}"
    then obtain m where r: "r \<in> set rs" and m: "m \<in> set ?fm" "review_movie_id r = movie_id m"
      by auto
    from r fst_l obtain a where a: "(r, a) \<in> set (zip rs rd)" by force
    from m fst_r obtain b where b: "(m, b) \<in> set (zip ?fm md)" by force
    from a b m(2) have "((r, a), (m, b)) \<in> set (merge (zip rs rd) (zip ?fm md))"
      by (simp add: in_set_merge)
    then have "derive_row ((r, a), (m, b)) \<in> set ?rows" by (metis imageI set_map)
    then show "r \<in> merged_review ` set ?rows"
      by (metis imageI merged_movie_derive_row(2))
  qed
  with run ids show ?thesis by blast
qed


text \<open>
  On the example the second review belongs to the movie that the filter dropped and the
  third to no movie; both disappear and the join still returns its table.
\<close>

theorem merge_is_inner_join_witness:
  "\<exists>rows. join_and_filter ex_parse ex_reviews (take 2 ex_movies) = Inr rows
     \<and> map merged_movie_id rows = [''tt1'']
     \<and> merged_review ` set rows = {ex_reviews ! 0}"
proof -
  have h1: "\<forall>r \<in> set ex_reviews. ex_parse (review_date r) \<noteq> None"
    by (simp add: ex_reviews_def ex_parse_def)
  have h2: "\<forall>m \<in> set (filter_valid_release_dates (take 2 ex_movies)).
      ex_parse (release_date m) \<noteq> None"
    by (simp add: ex_movies_def ex_parse_def filter_valid_release_dates_def)
  from merge_is_inner_join [OF h1 h2] obtain rows where
    rows: "join_and_filter ex_parse ex_reviews (take 2 ex_movies) = Inr rows"
    and revs: "merged_review ` set rows =
      {r \<in> set ex_reviews. review_movie_id r
         \<in> movie_id ` set (filter_valid_release_dates (take 2 ex_movies))}"
    by blast
  have "{r \<in> set ex_reviews. review_movie_id r
         \<in> movie_id ` set (filter_valid_release_dates (take 2 ex_movies))} = {ex_reviews ! 0}"
    by (auto simp: ex_reviews_def ex_movies_def filter_valid_release_dates_def)
  with revs have r: "merged_review ` set rows = {ex_reviews ! 0}" by simp
  from rows ex_join have i: "map merged_movie_id rows = [''tt1'']" by auto
  show ?thesis
  proof (rule exI [of _ rows])
    show "join_and_filter ex_parse ex_reviews (take 2 ex_movies) = Inr rows
      \<and> map merged_movie_id rows = [''tt1'']
      \<and> merged_review ` set rows = {ex_reviews ! 0}"
      using rows r i by simp
  qed
qed

subsection \<open>Stage 2\<close>

text \<open>
  C8. For every text and every days value the feature extractor returns (it raises no
  error) the list of nine entries: the days value, the numbers of tokens tagged noun,
  verb and adjective, the numbers of tokens of entity type person, organisation,
  geopolitical entity and date, and the token string. The seven counts range over all
  the tokens of the parse, stop words and punctuation included; the token string is the
  lemmas of the tokens that are neither stop words nor punctuation, joined with single
  spaces.
\<close>

theorem preprocess_feature_tuple:
  "preprocess nlp text days = Inr
     [IntC days,
      IntC (int (length (filter (\<lambda>t. token_pos t = NOUN) (nlp text)))),
      IntC (int (length (filter (\<lambda>t. token_pos t = VERB) (nlp text)))),
      IntC (int (length (filter (\<lambda>t. token_pos t = ADJ) (nlp text)))),
      IntC (int (length (filter (\<lambda>t. token_ent_type t = PERSON) (nlp text)))),
      IntC (int (length (filter (\<lambda>t. token_ent_type t = ORG) (nlp text)))),
      IntC (int (length (filter (\<lambda>t. token_ent_type t = GPE) (nlp text)))),
      IntC (int (length (filter (\<lambda>t. token_ent_type t = DATE) (nlp text)))),
      StrC (join '' '' (map token_lemma
        (filter (\<lambda>t. \<not> token_is_stop t \<and> \<not> token_is_punct t) (nlp text))))]"
  by (simp add: preprocess_closed_form occurrences_def cleaned_def)

text \<open>
  In the example text the only noun is a stop word: it is counted although it is absent
  from the token string.
\<close>

theorem preprocess_feature_tuple_witness:
  "preprocess ex_nlp ''Dull part two.'' 3 =
     Inr [IntC 3, IntC 1, IntC 0, IntC 1, IntC 0, IntC 0, IntC 0, IntC 0, StrC ''dull'']"
  using preprocess_feature_tuple [of ex_nlp "''Dull part two.''" 3]
  by (simp add: ex_nlp_def ex_token_def)

text \<open>
  C10. Whatever the order in which the tasks of the pool complete (any permutation of
  the positions of the capped table), the extraction returns one feature list per record
  and the table built from them has one row per record; entry 0 of the feature list at
  position \<open>j\<close> is the days value of the record that completed at position \<open>j\<close> and
  entry 8 is the token string of the text of that same record, and so are the
  \<open>Days\<close> and \<open>tokens\<close> columns of row \<open>j\<close> of the table.
\<close>

theorem days_paired_with_tokens:
  assumes "mset order = mset [0..<length (take sample_cap df)]"
  shows "\<exists>rows frame.
     extract_features nlp order df = Inr rows \<and> DataFrame rows = Inr frame
     \<and> length rows = length (take sample_cap df) \<and> length frame = length rows
     \<and> (\<forall>j < length rows.
          order ! j < length (take sample_cap df)
        \<and> rows ! j ! 0 = IntC (days_since_release (df ! (order ! j)))
        \<and> rows ! j ! 8 = StrC (join '' '' (map token_lemma
            (filter (\<lambda>t. \<not> token_is_stop t \<and> \<not> token_is_punct t)
               (nlp (review_combined (df ! (order ! j)))))))
        \<and> numeric (frame ! j) ! 0 = of_int (days_since_release (df ! (order ! j)))
        \<and> tokens (frame ! j) = join '' '' (map token_lemma
            (filter (\<lambda>t. \<not> token_is_stop t \<and> \<not> token_is_punct t)
               (nlp (review_combined (df ! (order ! j)))))))"
proof -
  let ?g = "\<lambda>i. feature_row nlp (review_combined (df ! i)) (days_since_release (df ! i))"
  from post_extraction_table [OF assms] obtain rows where
    run: "extract_features nlp order df = Inr rows" and
    rows: "rows = map (\<lambda>i. projr (preprocess nlp (review_combined (df ! i))
      (days_since_release (df ! i)))) order" and
    frame: "DataFrame rows = Inr (map ?g order)"
    by blast
  have len: "length order = length (take sample_cap df)"
    using assms by (metis length_upt minus_nat.diff_0 size_mset)
  have rng: "order ! j < length (take sample_cap df)" if "j < length order" for j
    using assms that permutation_in_range nth_mem by blast
  show ?thesis
  proof (intro exI conjI allI impI)
    show "extract_features nlp order df = Inr rows" by (rule run)
    show "DataFrame rows = Inr (map ?g order)" by (rule frame)
    show "length rows = length (take sample_cap df)" using rows len by simp
    show "length (map ?g order) = length rows" using rows by simp
  next
    fix j assume j: "j < length rows"
    then have j': "j < length order" using rows by simp
    show "order ! j < length (take sample_cap df)" using rng j' by blast
    show "rows ! j ! 0 = IntC (days_since_release (df ! (order ! j)))"
      using j' by (simp add: rows preprocess_closed_form)
    show "rows ! j ! 8 = StrC (join '' '' (map token_lemma
            (filter (\<lambda>t. \<not> token_is_stop t \<and> \<not> token_is_punct t)
               (nlp (review_combined (df ! (order ! j)))))))"
      using j' by (simp add: rows preprocess_closed_form cleaned_def)
    show "numeric (map ?g order ! j) ! 0 = of_int (days_since_release (df ! (order ! j)))"
      using j' by (simp add: feature_row_def)
    show "tokens (map ?g order ! j) = join '' '' (map token_lemma
            (filter (\<lambda>t. \<not> token_is_stop t \<and> \<not> token_is_punct t)
               (nlp (review_combined (df ! (order ! j))))))"
      using j' by (simp add: feature_row_def cleaned_def)
  qed
qed

text \<open>
  With the second task completing first, the first row pairs the days value 3 with the
  token string of the second review, and the second row the days value 10 with that of
  the first review.
\<close>

theorem days_paired_with_tokens_witness:
  "\<exists>rows frame.
     extract_features ex_nlp [1, 0] ex_table = Inr rows \<and> DataFrame rows = Inr frame
     \<and> length rows = 2 \<and> length frame = 2
     \<and> rows ! 0 ! 0 = IntC 3 \<and> rows ! 0 ! 8 = StrC ''dull''
     \<and> rows ! 1 ! 0 = IntC 10 \<and> rows ! 1 ! 8 = StrC ''good die''
     \<and> numeric (frame ! 0) ! 0 = 3 \<and> tokens (frame ! 0) = ''dull''
     \<and> numeric (frame ! 1) ! 0 = 10 \<and> tokens (frame ! 1) = ''good die''"
proof -
  from days_paired_with_tokens [OF ex_order, of ex_nlp] obtain rows frame where
    run: "extract_features ex_nlp [1, 0] ex_table = Inr rows" "DataFrame rows = Inr frame" and
    len: "length rows = length (take sample_cap ex_table)" "length frame = length rows" and
    each: "\<And>j. j < length rows \<Longrightarrow>
        rows ! j ! 0 = IntC (days_since_release (ex_table ! ([1, 0] ! j)))
      \<and> rows ! j ! 8 = StrC (join '' '' (map token_lemma
            (filter (\<lambda>t. \<not> token_is_stop t \<and> \<not> token_is_punct t)
               (ex_nlp (review_combined (ex_table ! ([1, 0] ! j)))))))
      \<and> numeric (frame ! j) ! 0 = of_int (days_since_release (ex_table ! ([1, 0] ! j)))
      \<and> tokens (frame ! j) = join '' '' (map token_lemma
            (filter (\<lambda>t. \<not> token_is_stop t \<and> \<not> token_is_punct t)
               (ex_nlp (review_combined (ex_table ! ([1, 0] ! j))))))"
    by blast
  have two: "length rows = 2" using len(1) by (simp add: sample_cap_def ex_table_def)
  from each [of 0] each [of 1] two len(2) run show ?thesis
    by (simp add: ex_texts ex_cleaned)
qed

subsection \<open>Stage 3\<close>

text \<open>
  C4, as the scaler computes it. For every non-empty table built from feature lists the
  scaling succeeds, and for each of the eight numeric columns every scaled value lies
  between 0 and 1; a row that held the minimum of the column is mapped to 0; a row that
  held the maximum is mapped to 1 when the column is not constant (its minimum is below
  its maximum); in a constant column every value is mapped to 0.
\<close>

theorem scaled_values_in_unit_interval:
  assumes "DataFrame processed_texts = Inr frame" and "frame \<noteq> []"
  shows "\<exists>scaled. scale_frame frame = Inr scaled \<and> length scaled = length frame
    \<and> (\<forall>i < length frame. \<forall>c < 8.
          0 \<le> numeric (scaled ! i) ! c \<and> numeric (scaled ! i) ! c \<le> 1
        \<and> (numeric (frame ! i) ! c = Min (set (column c (map numeric frame)))
             \<longrightarrow> numeric (scaled ! i) ! c = 0)
        \<and> (numeric (frame ! i) ! c = Max (set (column c (map numeric frame)))
             \<and> Min (set (column c (map numeric frame))) < Max (set (column c (map numeric frame)))
             \<longrightarrow> numeric (scaled ! i) ! c = 1)
        \<and> (Min (set (column c (map numeric frame))) = Max (set (column c (map numeric frame)))
             \<longrightarrow> numeric (scaled ! i) ! c = 0))"
proof -
  let ?X = "map numeric frame"
  let ?scaled = "map (\<lambda>r. r\<lparr>numeric := scaled_row ?X (numeric r)\<rparr>) frame"
  have wf: "\<forall>r \<in> set frame. length (numeric r) = 8"
    using assms(1) DataFrame_well_formed by blast
  have run: "scale_frame frame = Inr ?scaled"
    using assms(2) wf by (rule scale_frame_closed_form)
  have each: "0 \<le> numeric (?scaled ! i) ! c \<and> numeric (?scaled ! i) ! c \<le> 1
        \<and> (numeric (frame ! i) ! c = Min (set (column c ?X)) \<longrightarrow> numeric (?scaled ! i) ! c = 0)
        \<and> (numeric (frame ! i) ! c = Max (set (column c ?X))
             \<and> Min (set (column c ?X)) < Max (set (column c ?X))
             \<longrightarrow> numeric (?scaled ! i) ! c = 1)
        \<and> (Min (set (column c ?X)) = Max (set (column c ?X)) \<longrightarrow> numeric (?scaled ! i) ! c = 0)"
    if i: "i < length frame" and c: "c < 8" for i c
  proof -
    let ?lo = "Min (set (column c ?X))" and ?hi = "Max (set (column c ?X))"
    let ?x = "numeric (frame ! i) ! c"
    have y: "numeric (?scaled ! i) ! c = minmax ?lo ?hi ?x"
      using i c by (simp add: nth_scaled_row)
    have b: "?lo \<le> ?x" "?x \<le> ?hi"
      using column_bounds [of i ?X c] i by simp_all
    show ?thesis
      unfolding y using b minmax_bounds [OF b]
      by (auto simp: minmax_at_min minmax_at_max minmax_constant)
  qed
  show ?thesis
  proof (intro exI conjI allI impI)
    show "scale_frame frame = Inr ?scaled" by (rule run)
    show "length ?scaled = length frame" by simp
  qed (use each in blast)+
qed

text \<open>
  In the example table the \<open>Days\<close> column holds 10 and 3: the first row is mapped to 1
  and the second to 0.
\<close>

theorem scaled_values_in_unit_interval_witness:
  "\<exists>scaled. scale_frame ex_frame = Inr scaled \<and> length scaled = 2
     \<and> 0 \<le> numeric (scaled ! 0) ! 0 \<and> numeric (scaled ! 0) ! 0 \<le> 1
     \<and> numeric (scaled ! 0) ! 0 = 1 \<and> numeric (scaled ! 1) ! 0 = 0"
proof -
  have ne: "ex_frame \<noteq> []" by (simp add: ex_frame_def)
  from scaled_values_in_unit_interval [OF ex_DataFrame ne] obtain scaled where
    run: "scale_frame ex_frame = Inr scaled" "length scaled = length ex_frame" and
    each: "\<And>i c. i < length ex_frame \<Longrightarrow> c < 8 \<Longrightarrow>
          0 \<le> numeric (scaled ! i) ! c \<and> numeric (scaled ! i) ! c \<le> 1
        \<and> (numeric (ex_frame ! i) ! c = Min (set (column c (map numeric ex_frame)))
             \<longrightarrow> numeric (scaled ! i) ! c = 0)
        \<and> (numeric (ex_frame ! i) ! c = Max (set (column c (map numeric ex_frame)))
             \<and> Min (set (column c (map numeric ex_frame))) < Max (set (column c (map numeric ex_frame)))
             \<longrightarrow> numeric (scaled ! i) ! c = 1)"
    by blast
  have len: "length ex_frame = 2" by (simp add: ex_frame_def)
  have v: "numeric (ex_frame ! 0) ! 0 = 10" "numeric (ex_frame ! Suc 0) ! 0 = 3"
    by (simp_all add: ex_frame_def)
  from each [of 0 0] each [of 1 0] run len show ?thesis
    by (simp add: ex_columns v)
qed

text \<open>
  The claim C4 without the proviso fails on a constant column. In the example table both
  rows hold the maximum 1 of the adjective column (column 3), and the scaled value of the
  first row is 0, not 1.
\<close>

theorem constant_column_max_not_one:
  "DataFrame ex_features = Inr ex_frame
   \<and> numeric (ex_frame ! 0) ! 3 = Max (set (column 3 (map numeric ex_frame)))
   \<and> scale_frame ex_frame = Inr ex_scaled
   \<and> numeric (ex_scaled ! 0) ! 3 \<noteq> 1"
  by (simp add: ex_DataFrame ex_scale_frame ex_columns) (simp add: ex_frame_def ex_scaled_def)

text \<open>
  C5. When the maximum of a numeric column equals its minimum, the scaling of a
  non-empty table still succeeds: no division by zero occurs, the scaler's rule for one
  value returns 0 without dividing, and every entry of that column is 0 in the scaled
  table.
\<close>

theorem constant_column_scales_to_zero:
  assumes "DataFrame processed_texts = Inr frame" and "frame \<noteq> []" and "c < 8"
    and "Max (set (column c (map numeric frame))) = Min (set (column c (map numeric frame)))"
  shows "\<exists>scaled. scale_frame frame = Inr scaled \<and> length scaled = length frame
    \<and> (\<forall>i < length frame. numeric (scaled ! i) ! c = 0)
    \<and> (\<forall>i < length frame.
          scale_value (Min (set (column c (map numeric frame))),
                       Max (set (column c (map numeric frame)))) (numeric (frame ! i) ! c) = Inr 0)"
proof -
  let ?X = "map numeric frame"
  let ?scaled = "map (\<lambda>r. r\<lparr>numeric := scaled_row ?X (numeric r)\<rparr>) frame"
  have wf: "\<forall>r \<in> set frame. length (numeric r) = 8"
    using assms(1) DataFrame_well_formed by blast
  have run: "scale_frame frame = Inr ?scaled"
    using assms(2) wf by (rule scale_frame_closed_form)
  have zero: "numeric (?scaled ! i) ! c = 0" if "i < length frame" for i
    using that assms(3,4) by (simp add: nth_scaled_row minmax_constant)
  have sv: "scale_value (Min (set (column c ?X)), Max (set (column c ?X))) x = Inr 0" for x
    using assms(4) by (simp add: scale_value_def)
  show ?thesis
  proof (intro exI conjI allI impI)
    show "scale_frame frame = Inr ?scaled" by (rule run)
    show "length ?scaled = length frame" by simp
  qed (use zero sv in blast)+
qed


text \<open>
  The adjective column of the example table is constant; both its entries are scaled to 0.
\<close>

theorem constant_column_scales_to_zero_witness:
  "\<exists>scaled. scale_frame ex_frame = Inr scaled \<and> length scaled = 2
     \<and> numeric (scaled ! 0) ! 3 = 0 \<and> numeric (scaled ! 1) ! 3 = 0
     \<and> numeric (ex_frame ! 0) ! 3 = 1 \<and> numeric (ex_frame ! 1) ! 3 = 1"
proof -
  have ne: "ex_frame \<noteq> []" by (simp add: ex_frame_def)
  have c: "(3::nat) < 8" by simp
  have const: "Max (set (column 3 (map numeric ex_frame))) = Min (set (column 3 (map numeric ex_frame)))"
    by (simp add: ex_columns)
  from constant_column_scales_to_zero [OF ex_DataFrame ne c const] obtain scaled where
    run: "scale_frame ex_frame = Inr scaled" "length scaled = length ex_frame" and
    zero: "\<And>i. i < length ex_frame \<Longrightarrow> numeric (scaled ! i) ! 3 = 0"
    by blast
  have len: "length ex_frame = 2" by (simp add: ex_frame_def)
  have v: "numeric (ex_frame ! 0) ! 3 = 1" "numeric (ex_frame ! Suc 0) ! 3 = 1"
    by (simp_all add: ex_frame_def)
  from zero [of 0] zero [of 1] run len v show ?thesis by simp
qed


subsection \<open>Scaling before the split\<close>

text \<open>
  C2. The scaler is fitted once, on the whole table, before the split. For every
  completion order and every choice of train and test positions by the splitter, the
  script scales the whole post-extraction table and reaches the split, and both
  partitions are rows of that one scaled table. Each numeric value of each row of the
  test partition is the value of that row in the unscaled table rescaled with the
  minimum and the maximum of the column over the entire table (which bound the test
  rows as well); the rows of the train partition are rescaled with the same minimum and
  maximum, not with those of the train partition.
\<close>

theorem scaler_fitted_on_whole_table:
  assumes "mset order = mset [0..<length (take sample_cap df)]"
    and "df \<noteq> []"
    and "splitter (labels_of df) = (train, test)"
    and "\<forall>i \<in> set train \<union> set test. i < length (take sample_cap df)"
  shows "\<exists>processed_texts frame scaled X_train X_test y_train y_test.
      extract_features nlp order df = Inr processed_texts
    \<and> DataFrame processed_texts = Inr frame
    \<and> length frame = length (take sample_cap df)
    \<and> scale_frame frame = Inr scaled
    \<and> split_data nlp order splitter df = Inr (X_train, X_test, y_train, y_test)
    \<and> X_train = take_rows train scaled \<and> X_test = take_rows test scaled
    \<and> length X_train = length train \<and> length X_test = length test
    \<and> (\<forall>c < 8. \<forall>k < length test.
          numeric (X_test ! k) ! c =
            minmax (Min (set (column c (map numeric frame))))
                   (Max (set (column c (map numeric frame))))
                   (numeric (frame ! (test ! k)) ! c)
        \<and> Min (set (column c (map numeric frame))) \<le> numeric (frame ! (test ! k)) ! c
        \<and> numeric (frame ! (test ! k)) ! c \<le> Max (set (column c (map numeric frame))))
    \<and> (\<forall>c < 8. \<forall>k < length train.
          numeric (X_train ! k) ! c =
            minmax (Min (set (column c (map numeric frame))))
                   (Max (set (column c (map numeric frame))))
                   (numeric (frame ! (train ! k)) ! c))"
proof -
  let ?frame = "map (\<lambda>i. feature_row nlp (review_combined (df ! i)) (days_since_release (df ! i))) order"
  let ?X = "map numeric ?frame"
  let ?scaled = "map (\<lambda>r. r\<lparr>numeric := scaled_row ?X (numeric r)\<rparr>) ?frame"
  from post_extraction_table [OF assms(1)] obtain rows where
    run: "extract_features nlp order df = Inr rows" and
    frame: "DataFrame rows = Inr ?frame"
    by blast
  have len: "length ?frame = length (take sample_cap df)"
    using assms(1) by (simp add: permutation_length)
  have prep: "prepare nlp order df = Inr (?scaled, labels_of df)"
    using assms(1,2) by (rule prepare_closed_form)
  have "scale_frame ?frame = Inr ?scaled"
  proof (rule scale_frame_closed_form)
    show "?frame \<noteq> []"
      using len take_sample_cap_nonempty [OF assms(2)] by (metis length_0_conv)
    show "\<forall>r \<in> set ?frame. length (numeric r) = 8"
      by (auto simp: feature_row_well_formed)
  qed
  note scaled = this
  have "length ?scaled = length (labels_of df)"
    using len by (simp add: labels_of_def)
  then have split: "split_data nlp order splitter df =
    Inr (take_rows train ?scaled, take_rows test ?scaled,
         take_rows train (labels_of df), take_rows test (labels_of df))"
    by (simp add: split_data_def prep train_test_split_def assms(3))
  have row: "numeric (take_rows ps ?scaled ! k) ! c =
      minmax (Min (set (column c ?X))) (Max (set (column c ?X))) (numeric (?frame ! (ps ! k)) ! c)"
    if "k < length ps" "ps ! k < length ?frame" "c < 8" for ps k c
    using that by (simp add: take_rows_def nth_scaled_row)
  have in_test: "test ! k < length ?frame" if "k < length test" for k
    using that assms(4) len by (metis UnCI nth_mem)
  have in_train: "train ! k < length ?frame" if "k < length train" for k
    using that assms(4) len by (metis UnCI nth_mem)
  have bounds: "Min (set (column c ?X)) \<le> numeric (?frame ! i) ! c
      \<and> numeric (?frame ! i) ! c \<le> Max (set (column c ?X))"
    if "i < length ?frame" for i c
    using column_bounds [of i ?X c] that by simp
  show ?thesis
  proof (intro exI conjI allI impI)
    show "extract_features nlp order df = Inr rows" by (rule run)
    show "DataFrame rows = Inr ?frame" by (rule frame)
    show "length ?frame = length (take sample_cap df)" by (rule len)
    show "scale_frame ?frame = Inr ?scaled" by (rule scaled)
    show "split_data nlp order splitter df =
      Inr (take_rows train ?scaled, take_rows test ?scaled,
           take_rows train (labels_of df), take_rows test (labels_of df))"
      by (rule split)
    show "take_rows train ?scaled = take_rows train ?scaled" by (rule refl)
    show "take_rows test ?scaled = take_rows test ?scaled" by (rule refl)
    show "length (take_rows train ?scaled) = length train" by (simp add: take_rows_def)
    show "length (take_rows test ?scaled) = length test" by (simp add: take_rows_def)
  next
    fix c k :: nat assume "c < 8" "k < length test"
    then show "numeric (take_rows test ?scaled ! k) ! c =
        minmax (Min (set (column c ?X))) (Max (set (column c ?X)))
          (numeric (?frame ! (test ! k)) ! c)"
      using row in_test by blast
    show "Min (set (column c ?X)) \<le> numeric (?frame ! (test ! k)) ! c"
      using bounds in_test \<open>k < length test\<close> by blast
    show "numeric (?frame ! (test ! k)) ! c \<le> Max (set (column c ?X))"
      using bounds in_test \<open>k < length test\<close> by blast
  next
    fix c k :: nat assume "c < 8" "k < length train"
    then show "numeric (take_rows train ?scaled ! k) ! c =
        minmax (Min (set (column c ?X))) (Max (set (column c ?X)))
          (numeric (?frame ! (train ! k)) ! c)"
      using row in_train by blast
  qed
qed

text \<open>
  In the example the test row holds the minimum 3 of the \<open>Days\<close> column. The train row
  is scaled to 1 with it; a scaler fitted on the train row alone maps it to 0.
\<close>

theorem scaler_fitted_on_whole_table_witness:
  "\<exists>X_train X_test y_train y_test.
      split_data ex_nlp [0, 1] ex_splitter ex_table = Inr (X_train, X_test, y_train, y_test)
    \<and> numeric (X_train ! 0) ! 0 = 1 \<and> numeric (X_test ! 0) ! 0 = 0
    \<and> scale_frame [ex_frame ! 0] =
          Inr [\<lparr>numeric = [0, 0, 0, 0, 0, 0, 0, 0], tokens = ''good die''\<rparr>]"
proof -
  have ne: "ex_table \<noteq> []" by (simp add: ex_table_def)
  have sp: "ex_splitter (labels_of ex_table) = ([0], [1])" by (simp add: ex_splitter_def)
  have rng: "\<forall>i \<in> set [0] \<union> set [1]. i < length (take sample_cap ex_table)"
    by (simp add: sample_cap_def ex_table_def)
  from scaler_fitted_on_whole_table
    [where splitter = ex_splitter and nlp = ex_nlp, OF ex_order_id ne sp rng]
  obtain processed_texts frame scaled X_train X_test y_train y_test where
    ext: "extract_features ex_nlp [0, 1] ex_table = Inr processed_texts" and
    fr: "DataFrame processed_texts = Inr frame" and
    run: "split_data ex_nlp [0, 1] ex_splitter ex_table = Inr (X_train, X_test, y_train, y_test)" and
    test: "\<And>c k. c < 8 \<Longrightarrow> k < length [1::nat] \<Longrightarrow>
          numeric (X_test ! k) ! c =
            minmax (Min (set (column c (map numeric frame))))
                   (Max (set (column c (map numeric frame))))
                   (numeric (frame ! ([1] ! k)) ! c)" and
    train: "\<And>c k. c < 8 \<Longrightarrow> k < length [0::nat] \<Longrightarrow>
          numeric (X_train ! k) ! c =
            minmax (Min (set (column c (map numeric frame))))
                   (Max (set (column c (map numeric frame))))
                   (numeric (frame ! ([0] ! k)) ! c)"
    by blast
  from ext ex_extract have "processed_texts = ex_features"
    by (simp only: sum.inject)
  with fr ex_DataFrame have frame: "frame = ex_frame"
    by (simp only: sum.inject)
  have v: "numeric (ex_frame ! 0) ! 0 = 10" "numeric (ex_frame ! Suc 0) ! 0 = 3"
    by (simp_all add: ex_frame_def)
  have "numeric (X_train ! 0) ! 0 = 1"
    using train [of 0 0] by (simp add: frame ex_columns v minmax_def)
  moreover have "numeric (X_test ! 0) ! 0 = 0"
    using test [of 0 0] by (simp add: frame ex_columns v minmax_def)
  ultimately show ?thesis
    using run ex_refit_on_train by blast
qed

subsection \<open>Labels after the pool\<close>

text \<open>
  C1 asks that each feature row reaches the splitter with the label of its own record.
  The script keeps the labels in table order and the feature rows in completion order
  (\<open>splitter_input_pairing\<close>), and pairs them by position. On the example table, when
  the second task completes first, the row with the token string of the second review
  (label \<open>False\<close>) is passed to the splitter with the label \<open>True\<close> of the first.
\<close>

theorem label_paired_with_other_record:
  "prepare ex_nlp [1, 0] ex_table = Inr
     ([\<lparr>numeric = [0, 1, 0, 0, 0, 0, 0, 0], tokens = ''dull''\<rparr>,
       \<lparr>numeric = [1, 0, 1, 0, 0, 0, 0, 0], tokens = ''good die''\<rparr>],
      [True, False])
   \<and> cleaned (ex_nlp (review_combined (ex_table ! 1))) = ''dull''
   \<and> is_spoiler (merged_review (ex_table ! 1)) = False
   \<and> cleaned (ex_nlp (review_combined (ex_table ! 0))) = ''good die''
   \<and> is_spoiler (merged_review (ex_table ! 0)) = True"
proof (intro conjI)
  show "prepare ex_nlp [1, 0] ex_table = Inr
     ([\<lparr>numeric = [0, 1, 0, 0, 0, 0, 0, 0], tokens = ''dull''\<rparr>,
       \<lparr>numeric = [1, 0, 1, 0, 0, 0, 0, 0], tokens = ''good die''\<rparr>],
      [True, False])"
    by (rule ex_prepare_reversed)
qed (simp_all add: ex_table_def ex_reviews_def cleaned_def ex_nlp_def ex_token_def)


subsection \<open>The n-gram model\<close>

text \<open>
  C3. The n-gram model is fitted on the token strings of the train partition alone, and
  the test partition is only transformed with it. The vectorisation step fails exactly
  when that fit fails, whatever the test partition. When the fit returns a model, the
  step returns that model, its vocabulary consists of n-grams of train documents, and
  every row of the combined test matrix is the transformation of the row's token string
  by that model followed by the eight numeric columns of the row (and likewise for the
  train matrix). The transformed vector has the width of the vocabulary, and its entry
  for a column is the number of occurrences of the column's n-gram in the token string
  times the fitted weight of the column. For a row of the test partition none of whose
  n-grams is in the vocabulary the vector is all zeros, and the row of the combined test
  matrix is that zero block followed by the numeric columns; no error is raised.
\<close>

theorem unknown_ngrams_give_zero_block:
  "(vectorize tokenize idf X_train X_test = Inl e \<longleftrightarrow>
      vectorizer_fit tokenize idf (map tokens X_train) = Inl e)
   \<and> (vectorizer_fit tokenize idf (map tokens X_train) = Inr v \<longrightarrow>
     (\<exists>X_train_combined X_test_combined.
        vectorize tokenize idf X_train X_test = Inr (v, X_train_combined, X_test_combined)
      \<and> set (vocabulary v) \<subseteq> (\<Union>r \<in> set X_train. set (analyze tokenize (tokens r)))
      \<and> length X_train_combined = length X_train
      \<and> length X_test_combined = length X_test
      \<and> (\<forall>k < length X_train.
            X_train_combined ! k =
              vectorizer_transform tokenize v (tokens (X_train ! k)) @ numeric (X_train ! k))
      \<and> (\<forall>k < length X_test.
            X_test_combined ! k =
              vectorizer_transform tokenize v (tokens (X_test ! k)) @ numeric (X_test ! k)
          \<and> length (vectorizer_transform tokenize v (tokens (X_test ! k))) =
              length (vocabulary v)
          \<and> (\<forall>j < length (vocabulary v).
                vectorizer_transform tokenize v (tokens (X_test ! k)) ! j =
                  of_nat (count_list (analyze tokenize (tokens (X_test ! k))) (vocabulary v ! j))
                    * weights v ! j)
          \<and> (set (analyze tokenize (tokens (X_test ! k))) \<inter> set (vocabulary v) = {} \<longrightarrow>
                vectorizer_transform tokenize v (tokens (X_test ! k)) =
                  replicate (length (vocabulary v)) 0
              \<and> X_test_combined ! k =
                  replicate (length (vocabulary v)) 0 @ numeric (X_test ! k)))))"
proof (intro conjI impI)
  show "vectorize tokenize idf X_train X_test = Inl e \<longleftrightarrow>
      vectorizer_fit tokenize idf (map tokens X_train) = Inl e"
    by (rule vectorize_error_iff)
next
  assume "vectorizer_fit tokenize idf (map tokens X_train) = Inr v"
  then show "\<exists>X_train_combined X_test_combined.
        vectorize tokenize idf X_train X_test = Inr (v, X_train_combined, X_test_combined)
      \<and> set (vocabulary v) \<subseteq> (\<Union>r \<in> set X_train. set (analyze tokenize (tokens r)))
      \<and> length X_train_combined = length X_train
      \<and> length X_test_combined = length X_test
      \<and> (\<forall>k < length X_train.
            X_train_combined ! k =
              vectorizer_transform tokenize v (tokens (X_train ! k)) @ numeric (X_train ! k))
      \<and> (\<forall>k < length X_test.
            X_test_combined ! k =
              vectorizer_transform tokenize v (tokens (X_test ! k)) @ numeric (X_test ! k)
          \<and> length (vectorizer_transform tokenize v (tokens (X_test ! k))) =
              length (vocabulary v)
          \<and> (\<forall>j < length (vocabulary v).
                vectorizer_transform tokenize v (tokens (X_test ! k)) ! j =
                  of_nat (count_list (analyze tokenize (tokens (X_test ! k))) (vocabulary v ! j))
                    * weights v ! j)
          \<and> (set (analyze tokenize (tokens (X_test ! k))) \<inter> set (vocabulary v) = {} \<longrightarrow>
                vectorizer_transform tokenize v (tokens (X_test ! k)) =
                  replicate (length (vocabulary v)) 0
              \<and> X_test_combined ! k =
                  replicate (length (vocabulary v)) 0 @ numeric (X_test ! k)))"
    by (rule vectorize_after_fit)
qed

text \<open>
  In the example the vocabulary fitted on the two train rows has four n-grams (the
  unigram of both documents is dropped as too frequent). The first test row's only
  n-gram is unknown and its block is four zeros; the second test row contains the known
  unigram of the first column once, and its entry there is the weight 2 of that column.
\<close>

theorem unknown_ngrams_give_zero_block_witness:
  "\<exists>X_train_combined X_test_combined.
      vectorize ex_tokenize ex_idf ex_train ex_test =
        Inr (\<lparr>vocabulary = [''die'', ''film'', ''good die'', ''good film''],
               weights = [2, 2, 2, 2]\<rparr>, X_train_combined, X_test_combined)
    \<and> length X_test_combined = 2
    \<and> X_test_combined ! 0 = [0, 0, 0, 0, 0, 1, 0, 0, 0, 0, 0, 0]
    \<and> X_test_combined ! 1 ! 0 = 2"
proof -
  let ?v = "\<lparr>vocabulary = [''die'', ''film'', ''good die'', ''good film''],
    weights = [2, 2, 2, 2 :: rat]\<rparr>"
  from unknown_ngrams_give_zero_block
    [where tokenize = ex_tokenize and idf = ex_idf and X_train = ex_train
       and X_test = ex_test and v = ?v, THEN conjunct2, rule_format, OF ex_fit_train]
  obtain X_train_combined X_test_combined where
    run: "vectorize ex_tokenize ex_idf ex_train ex_test =
      Inr (?v, X_train_combined, X_test_combined)" and
    len: "length X_test_combined = length ex_test" and
    rowA: "\<And>k. k < length ex_test \<Longrightarrow>
        X_test_combined ! k =
          vectorizer_transform ex_tokenize ?v (tokens (ex_test ! k)) @ numeric (ex_test ! k)" and
    rowL: "\<And>k. k < length ex_test \<Longrightarrow>
        length (vectorizer_transform ex_tokenize ?v (tokens (ex_test ! k))) =
          length (vocabulary ?v)" and
    rowB: "\<And>k j. k < length ex_test \<Longrightarrow> j < length (vocabulary ?v) \<Longrightarrow>
        vectorizer_transform ex_tokenize ?v (tokens (ex_test ! k)) ! j =
          of_nat (count_list (analyze ex_tokenize (tokens (ex_test ! k))) (vocabulary ?v ! j))
            * weights ?v ! j" and
    rowC: "\<And>k. k < length ex_test \<Longrightarrow>
        set (analyze ex_tokenize (tokens (ex_test ! k))) \<inter> set (vocabulary ?v) = {} \<Longrightarrow>
        X_test_combined ! k =
          replicate (length (vocabulary ?v)) 0 @ numeric (ex_test ! k)"
    by blast
  have two: "length ex_test = 2" by (simp add: ex_test_def)
  have t: "tokens (ex_test ! 0) = ''dull''" "tokens (ex_test ! Suc 0) = ''die dull''"
    "numeric (ex_test ! 0) = [0, 1, 0, 0, 0, 0, 0, 0]"
    by (simp_all add: ex_test_def)
  have unknown: "set (analyze ex_tokenize (tokens (ex_test ! 0))) \<inter> set (vocabulary ?v) = {}"
    by (simp add: t ex_analyze)
  have "X_test_combined ! 0 = replicate (length (vocabulary ?v)) 0 @ numeric (ex_test ! 0)"
    using two unknown by (intro rowC) simp
  then have r0: "X_test_combined ! 0 = [0, 0, 0, 0, 0, 1, 0, 0, 0, 0, 0, 0]"
    by (simp add: t eval_nat_numeral)
  have k1: "1 < length ex_test" using two by simp
  have j0: "0 < length (vocabulary ?v)" by simp
  have "X_test_combined ! 1 ! 0 =
      vectorizer_transform ex_tokenize ?v (tokens (ex_test ! 1)) ! 0"
    using rowA [OF k1] rowL [OF k1] by (simp add: nth_append)
  also have "\<dots> = of_nat (count_list (analyze ex_tokenize (tokens (ex_test ! 1)))
      (vocabulary ?v ! 0)) * weights ?v ! 0"
    using k1 j0 by (rule rowB)
  also have "\<dots> = 2"
    by (simp add: t ex_analyze)
  finally have r1: "X_test_combined ! 1 ! 0 = 2" .
  from run len two r0 r1 show ?thesis by auto
qed

end
